theory Spec2Isabelle
  imports Complex_Main "HOL-Library.AList"
begin

section \<open>JavaScript values used by the gateway\<close>

text \<open>
  The gateway computes on JavaScript numbers. A finite number is modelled by the real it
  denotes, and an operation on finite numbers by the exact operation on reals: the binary
  rounding of IEEE doubles, their overflow to an infinity and underflow to zero, and the
  sign of zero are not modelled (a zero divisor counts as \<open>+0\<close>). The three non-finite
  numbers are kept, because reading a missing property and dividing by zero produce them.
  Where the result of a call depends on the binary rounding itself, as the cent that the
  service layer's fee calculation rounds to, the rounding error is an input of the model.
\<close>

datatype jsnum = Num real | NaN | PInf | NInf

fun jneg :: "jsnum \<Rightarrow> jsnum" where
  "jneg (Num a) = Num (- a)"
| "jneg NaN = NaN"
| "jneg PInf = NInf"
| "jneg NInf = PInf"

fun jadd :: "jsnum \<Rightarrow> jsnum \<Rightarrow> jsnum" where
  "jadd (Num a) (Num b) = Num (a + b)"
| "jadd NaN _ = NaN"
| "jadd _ NaN = NaN"
| "jadd (Num a) b = b"
| "jadd a (Num b) = a"
| "jadd PInf PInf = PInf"
| "jadd NInf NInf = NInf"
| "jadd PInf NInf = NaN"
| "jadd NInf PInf = NaN"

definition jsub :: "jsnum \<Rightarrow> jsnum \<Rightarrow> jsnum" where
  "jsub a b = jadd a (jneg b)"

fun jmul :: "jsnum \<Rightarrow> jsnum \<Rightarrow> jsnum" where
  "jmul (Num a) (Num b) = Num (a * b)"
| "jmul NaN _ = NaN"
| "jmul _ NaN = NaN"
| "jmul (Num a) b = (if a = 0 then NaN else if (0 < a) = (b = PInf) then PInf else NInf)"
| "jmul a (Num b) = (if b = 0 then NaN else if (0 < b) = (a = PInf) then PInf else NInf)"
| "jmul PInf PInf = PInf"
| "jmul NInf NInf = PInf"
| "jmul PInf NInf = NInf"
| "jmul NInf PInf = NInf"

fun jdiv :: "jsnum \<Rightarrow> jsnum \<Rightarrow> jsnum" where
  "jdiv (Num a) (Num b) =
     (if b = 0 then (if a = 0 then NaN else if 0 < a then PInf else NInf) else Num (a / b))"
| "jdiv NaN _ = NaN"
| "jdiv _ NaN = NaN"
| "jdiv (Num a) b = Num 0"
| "jdiv a (Num b) = (if (0 \<le> b) = (a = PInf) then PInf else NInf)"
| "jdiv PInf PInf = NaN"
| "jdiv NInf NInf = NaN"
| "jdiv PInf NInf = NaN"
| "jdiv NInf PInf = NaN"

text \<open>\<^verbatim>\<open>Math.round(x)\<close>: the nearest integer, a tie going up.\<close>

fun jround :: "jsnum \<Rightarrow> jsnum" where
  "jround (Num a) = Num (of_int \<lfloor>a + 1 / 2\<rfloor>)"
| "jround x = x"

text \<open>
  \<^verbatim>\<open>Math.round(x * 100) / 100\<close>, the gateway's rounding to two decimals. The double that
  \<^verbatim>\<open>Math.round\<close> receives is the product \<open>x * 100\<close> as IEEE arithmetic computes it from the
  double \<open>x\<close>, which differs from the exact product of the exact value by a rounding error;
  when the exact product lies at a tie between two cents (or within that error of one), the
  error decides which cent is returned. \<open>round2\<close> rounds the exact product;
  \<open>round_cents err x\<close> takes the error as its first argument.
\<close>

definition round2 :: "jsnum \<Rightarrow> jsnum" where
  "round2 x = jdiv (jround (jmul x (Num 100))) (Num 100)"

definition round_cents :: "real \<Rightarrow> jsnum \<Rightarrow> jsnum" where
  "round_cents err x = jdiv (jround (jadd (jmul x (Num 100)) (Num err))) (Num 100)"

text \<open>
  A value read from an object: a number, \<^verbatim>\<open>undefined\<close>, or a member inherited from
  \<^verbatim>\<open>Object.prototype\<close> (a function, or the prototype itself for \<^verbatim>\<open>__proto__\<close>).
  Used as a number, the last two are \<^verbatim>\<open>NaN\<close>.
\<close>

datatype jsval = N jsnum | Undefined | ProtoMember

fun to_number :: "jsval \<Rightarrow> jsnum" where
  "to_number (N x) = x"
| "to_number Undefined = NaN"
| "to_number ProtoMember = NaN"

text \<open>
  The tables of the gateway are object literals read with \<^verbatim>\<open>table[key]\<close>. Such a read
  finds the table's own entry, or else a member inherited from \<^verbatim>\<open>Object.prototype\<close>
  (which is truthy), or else \<^verbatim>\<open>undefined\<close>.
\<close>

datatype 'a lookup = Own 'a | Inherited | Missing

definition object_prototype_names :: "string list" where
  "object_prototype_names =
     [''constructor'', ''__defineGetter__'', ''__defineSetter__'', ''hasOwnProperty'',
      ''__lookupGetter__'', ''__lookupSetter__'', ''isPrototypeOf'', ''propertyIsEnumerable'',
      ''toString'', ''valueOf'', ''__proto__'', ''toLocaleString'']"

definition obj_get :: "(string \<times> 'a) list \<Rightarrow> string \<Rightarrow> 'a lookup" where
  "obj_get tbl k =
     (case map_of tbl k of
        Some v \<Rightarrow> Own v
      | None \<Rightarrow> if k \<in> set object_prototype_names then Inherited else Missing)"

section \<open>Settlement methods and fees\<close>

subsection \<open>Route layer: \<^verbatim>\<open>UTPSettlementEngine\<close>\<close>

record method_config =
  name :: string
  settlement_time :: string
  fee :: real
  minimum_amount :: real
  maximum_amount :: real

definition settlement_methods :: "(string \<times> method_config) list" where
  "settlement_methods =
     [(''inr_upi'', \<lparr>name = ''UPI Transfer'', settlement_time = ''< 2 seconds'',
         fee = 1 / 1000, minimum_amount = 1, maximum_amount = 100000\<rparr>),
      (''inr_neft'', \<lparr>name = ''NEFT Transfer'', settlement_time = ''< 24 hours'',
         fee = 2 / 1000, minimum_amount = 1, maximum_amount = 10000000\<rparr>),
      (''binr_transfer'', \<lparr>name = ''BINR Token Transfer'', settlement_time = ''< 5 seconds'',
         fee = 1 / 1000, minimum_amount = 1, maximum_amount = 1000000\<rparr>),
      (''bgt_transfer'', \<lparr>name = ''Gold Token Transfer'', settlement_time = ''< 10 seconds'',
         fee = 15 / 10000, minimum_amount = 10, maximum_amount = 1000000\<rparr>)]"

datatype settlement_error =
    MissingField string
  | UnsupportedMethod string
  | AmountRange real real
  | UnknownMethod string
  | InvalidMethod string
  | AmountBelowMinimum real
  | AmountAboveMaximum real
  | UnsupportedCurrency string
  | TypeError
  | ExecutionFailed settlement_error

record fee_quote =
  fq_amount :: real
  fq_settlement_fee :: jsnum
  fq_gst :: jsnum
  fq_total_fee :: jsnum
  fq_net_amount :: jsnum
  fq_fee_percentage :: jsval

text \<open>The fee rate read off a looked-up method: \<^verbatim>\<open>config.fee\<close>.\<close>

fun config_fee :: "method_config lookup \<Rightarrow> jsval" where
  "config_fee (Own c) = N (Num (fee c))"
| "config_fee Inherited = Undefined"
| "config_fee Missing = Undefined"

definition calculateFees :: "real \<Rightarrow> string \<Rightarrow> settlement_error + fee_quote" where
  "calculateFees amount settlement_method =
     (let config = obj_get settlement_methods settlement_method in
      if config = Missing then Inl (UnknownMethod settlement_method)
      else
        let settlement_fee = jmul (Num amount) (to_number (config_fee config));
            gst = jmul settlement_fee (Num (18 / 100));
            total_fee = jadd settlement_fee gst;
            net_amount = jsub (Num amount) total_fee
        in Inr \<lparr>fq_amount = amount, fq_settlement_fee = settlement_fee, fq_gst = gst,
                 fq_total_fee = total_fee, fq_net_amount = net_amount,
                 fq_fee_percentage = config_fee config\<rparr>)"

subsection \<open>Service layer: \<^verbatim>\<open>UTPSettlementService\<close>\<close>

record service_method =
  sm_name :: string
  sm_type :: string
  sm_settlement_time :: string
  fee_rate :: real
  sm_minimum_amount :: real
  sm_maximum_amount :: real
  sm_currency :: string

definition service_settlement_methods :: "(string \<times> service_method) list" where
  "service_settlement_methods =
     [(''inr_upi'', \<lparr>sm_name = ''UPI Transfer'', sm_type = ''fiat'',
         sm_settlement_time = ''< 2 seconds'', fee_rate = 1 / 1000,
         sm_minimum_amount = 10, sm_maximum_amount = 100000, sm_currency = ''INR''\<rparr>),
      (''inr_neft'', \<lparr>sm_name = ''NEFT Transfer'', sm_type = ''fiat'',
         sm_settlement_time = ''< 24 hours'', fee_rate = 2 / 1000,
         sm_minimum_amount = 1, sm_maximum_amount = 10000000, sm_currency = ''INR''\<rparr>),
      (''binr_transfer'', \<lparr>sm_name = ''BINR Token Transfer'', sm_type = ''digital'',
         sm_settlement_time = ''< 5 seconds'', fee_rate = 1 / 1000,
         sm_minimum_amount = 1, sm_maximum_amount = 1000000, sm_currency = ''BINR''\<rparr>),
      (''bgt_transfer'', \<lparr>sm_name = ''Gold Token Transfer'', sm_type = ''asset'',
         sm_settlement_time = ''< 10 seconds'', fee_rate = 15 / 10000,
         sm_minimum_amount = 1 / 10, sm_maximum_amount = 1000, sm_currency = ''BGT''\<rparr>),
      (''mixed_settlement'', \<lparr>sm_name = ''Mixed Settlement'', sm_type = ''hybrid'',
         sm_settlement_time = ''< 15 seconds'', fee_rate = 2 / 1000,
         sm_minimum_amount = 50, sm_maximum_amount = 500000, sm_currency = ''MIXED''\<rparr>)]"

definition supported_currencies :: "string list" where
  "supported_currencies = [''INR'', ''BINR'', ''BGT'', ''BST'', ''BPT'']"

record service_fees =
  sf_settlement_fee :: jsnum
  sf_gst :: jsnum
  sf_total_fee :: jsnum
  sf_fee_rate :: jsnum

fun method_fee_rate :: "service_method lookup \<Rightarrow> jsval" where
  "method_fee_rate (Own m) = N (Num (fee_rate m))"
| "method_fee_rate Inherited = Undefined"
| "method_fee_rate Missing = Undefined"

text \<open>
  The rounding errors of one \<^verbatim>\<open>calculateFees\<close> call of the service: for each of the three
  fees, the difference between the double that \<^verbatim>\<open>Math.round\<close> receives and a hundred times
  the exact fee. IEEE arithmetic determines them from the amount and the method; the model
  reads them from the environment and assumes nothing about their size.
\<close>

record fee_rounding =
  settlement_fee_error :: real
  gst_error :: real
  total_fee_error :: real

definition service_calculateFees :: "fee_rounding \<Rightarrow> real \<Rightarrow> string \<Rightarrow> settlement_error + service_fees" where
  "service_calculateFees rounding amount settlement_method =
     (let method = obj_get service_settlement_methods settlement_method in
      if method = Missing then Inl (InvalidMethod settlement_method)
      else
        let settlement_fee = jmul (Num amount) (to_number (method_fee_rate method));
            gst = jmul settlement_fee (Num (18 / 100));
            total_fee = jadd settlement_fee gst
        in Inr \<lparr>sf_settlement_fee = round_cents (settlement_fee_error rounding) settlement_fee,
                 sf_gst = round_cents (gst_error rounding) gst,
                 sf_total_fee = round_cents (total_fee_error rounding) total_fee,
                 sf_fee_rate = jmul (to_number (method_fee_rate method)) (Num 100)\<rparr>)"

section \<open>Settlement execution\<close>

text \<open>
  The environment of one call: what \<^verbatim>\<open>uuidv4()\<close>, \<^verbatim>\<open>Date.now()\<close> / \<^verbatim>\<open>new Date()\<close> and
  \<^verbatim>\<open>Math.random()\<close> return at the places the call reads them. Instants are milliseconds
  since the epoch; an ISO timestamp is modelled by its instant. \<^verbatim>\<open>await\<close> is sequential:
  calls do not interleave.
\<close>

definition digit :: "nat \<Rightarrow> char" where
  "digit n = ''0123456789'' ! (n mod 10)"

text \<open>The decimal numeral of a non-negative integer, as string interpolation prints it.\<close>

fun decimal :: "nat \<Rightarrow> string" where
  "decimal n = (if n < 10 then [digit n] else decimal (n div 10) @ [digit (n mod 10)])"

declare decimal.simps [simp del]

text \<open>The number that a string of decimal digits denotes.\<close>

definition numeral_value :: "string \<Rightarrow> nat" where
  "numeral_value cs = foldl (\<lambda>acc c. 10 * acc + (of_char c - 48)) 0 cs"

record settle_env =
  uuid :: string
  now_created :: nat
  now_txn :: nat
  rand_txn :: string
  now_executed :: nat
  now_failed :: nat
  now_returned :: nat

text \<open>
  The merchant's account details as they arrive in the request body: absent
  (\<^verbatim>\<open>undefined\<close> or \<^verbatim>\<open>null\<close>, on which a property read throws), another falsy value, or a
  truthy value whose properties can be read (a missing property reads as \<open>None\<close>).
\<close>

record account =
  upi_id :: "string option"
  vpa :: "string option"
  account_number :: "string option"
  ifsc_code :: "string option"
  wallet_address :: "string option"
  vault_provider :: "string option"

datatype account_value = AcctAbsent | AcctFalsy | AcctTruthy account

record settlement_data =
  payment_id :: "string option"
  merchant_id :: "string option"
  req_amount :: "real option"
  currency :: "string option"
  settlement_method :: "string option"
  merchant_account_details :: account_value
  metadata :: "(string \<times> string) list option"

definition missing_str :: "string option \<Rightarrow> bool" where
  "missing_str v = (v = None \<or> v = Some [])"

definition missing_num :: "real option \<Rightarrow> bool" where
  "missing_num v = (v = None \<or> v = Some 0)"

fun missing_account :: "account_value \<Rightarrow> bool" where
  "missing_account (AcctTruthy a) = False"
| "missing_account AcctAbsent = True"
| "missing_account AcctFalsy = True"

text \<open>The first field \<open>f\<close> of the list with \<^verbatim>\<open>!data[f]\<close>, as the \<^verbatim>\<open>for\<close> loop finds it.\<close>

fun first_missing :: "(string \<times> bool) list \<Rightarrow> string option" where
  "first_missing [] = None"
| "first_missing ((f, absent) # fs) = (if absent then Some f else first_missing fs)"

text \<open>The fields once validation has found them present.\<close>

definition str_of :: "string option \<Rightarrow> string" where
  "str_of v = (case v of Some s \<Rightarrow> s | None \<Rightarrow> [])"

definition num_of :: "real option \<Rightarrow> real" where
  "num_of v = (case v of Some a \<Rightarrow> a | None \<Rightarrow> 0)"

subsection \<open>Route layer\<close>

definition validateSettlementData :: "settlement_data \<Rightarrow> settlement_error option" where
  "validateSettlementData data =
     (case first_missing
             [(''payment_id'', missing_str (payment_id data)),
              (''merchant_id'', missing_str (merchant_id data)),
              (''amount'', missing_num (req_amount data)),
              (''currency'', missing_str (currency data)),
              (''settlement_method'', missing_str (settlement_method data)),
              (''merchant_account_details'', missing_account (merchant_account_details data))] of
        Some f \<Rightarrow> Some (MissingField f)
      | None \<Rightarrow>
          (case obj_get settlement_methods (str_of (settlement_method data)) of
             Missing \<Rightarrow> Some (UnsupportedMethod (str_of (settlement_method data)))
           | Inherited \<Rightarrow> None
           | Own method_config \<Rightarrow>
               if num_of (req_amount data) < minimum_amount method_config
                  \<or> num_of (req_amount data) > maximum_amount method_config
               then Some (AmountRange (minimum_amount method_config) (maximum_amount method_config))
               else None))"

datatype status = Pending | Processing | Completed | Failed

datatype transaction_details =
    UPI_details string "string option" jsnum
  | NEFT_details string "string option" "string option" jsnum
  | BINR_details "string option" jsnum string
  | BGT_details "string option" jsnum jsnum string

record fees =
  settlement_fee :: jsnum
  gst :: jsnum
  total_fee :: jsnum

record settlement =
  settlement_id :: string
  st_payment_id :: string
  st_merchant_id :: string
  st_amount :: real
  st_currency :: string
  st_settlement_method :: string
  st_status :: status
  created_at :: nat
  st_metadata :: "(string \<times> string) list"
  merchant_account :: account_value
  st_transaction_details :: "transaction_details option"
  st_fees :: fees
  net_amount :: jsnum
  error_message :: "settlement_error option"
  failed_at :: "nat option"

record process_result =
  pr_status :: status
  pr_transaction_ref :: string
  pr_settlement_method :: string
  pr_estimated_completion :: string
  pr_executed_at :: nat
  pr_transaction_details :: transaction_details

text \<open>
  The engine's state. \<^verbatim>\<open>this.settlements\<close> is a \<^verbatim>\<open>Map\<close> from settlement id to a settlement
  object; the objects live in a heap and the map holds references, in insertion order, so
  that a write to the object is seen through the map.
\<close>

record engine =
  objects :: "nat \<Rightarrow> settlement option"
  next_ref :: nat
  settlements :: "(string \<times> nat) list"

definition new_engine :: engine where
  "new_engine = \<lparr>objects = (\<lambda>r. None), next_ref = 0, settlements = []\<rparr>"

text \<open>\<^verbatim>\<open>this.settlements.get(id)\<close>, followed through the reference.\<close>

definition settlements_get :: "engine \<Rightarrow> string \<Rightarrow> settlement option" where
  "settlements_get e sid =
     (case map_of (settlements e) sid of None \<Rightarrow> None | Some r \<Rightarrow> objects e r)"

text \<open>Reading a property of \<^verbatim>\<open>settlement.merchant_account\<close>; on an absent account it throws.\<close>

fun account_field :: "account_value \<Rightarrow> (account \<Rightarrow> string option) \<Rightarrow> settlement_error + string option" where
  "account_field (AcctTruthy a) f = Inr (f a)"
| "account_field AcctFalsy f = Inr None"
| "account_field AcctAbsent f = Inl TypeError"

definition processUPISettlement :: "settle_env \<Rightarrow> settlement \<Rightarrow> settlement_error + process_result" where
  "processUPISettlement env s =
     (let transaction_id = ''UPI'' @ decimal (now_txn env) @ rand_txn env in
      case account_field (merchant_account s) upi_id of
        Inl e \<Rightarrow> Inl e
      | Inr v \<Rightarrow>
          Inr \<lparr>pr_status = Completed, pr_transaction_ref = transaction_id,
               pr_settlement_method = ''inr_upi'', pr_estimated_completion = ''< 2 seconds'',
               pr_executed_at = now_executed env,
               pr_transaction_details = UPI_details transaction_id v (net_amount s)\<rparr>)"

definition processNEFTettlement :: "settle_env \<Rightarrow> settlement \<Rightarrow> settlement_error + process_result" where
  "processNEFTettlement env s =
     (let transaction_id = ''NEFT'' @ decimal (now_txn env) @ rand_txn env in
      case account_field (merchant_account s) account_number of
        Inl e \<Rightarrow> Inl e
      | Inr acc \<Rightarrow>
          (case account_field (merchant_account s) ifsc_code of
             Inl e \<Rightarrow> Inl e
           | Inr ifsc \<Rightarrow>
               Inr \<lparr>pr_status = Processing, pr_transaction_ref = transaction_id,
                    pr_settlement_method = ''inr_neft'', pr_estimated_completion = ''< 24 hours'',
                    pr_executed_at = now_executed env,
                    pr_transaction_details = NEFT_details transaction_id acc ifsc (net_amount s)\<rparr>))"

definition processBINRSettlement :: "settle_env \<Rightarrow> settlement \<Rightarrow> settlement_error + process_result" where
  "processBINRSettlement env s =
     (let transaction_hash = ''0x'' @ rand_txn env in
      case account_field (merchant_account s) wallet_address of
        Inl e \<Rightarrow> Inl e
      | Inr w \<Rightarrow>
          Inr \<lparr>pr_status = Completed, pr_transaction_ref = transaction_hash,
               pr_settlement_method = ''binr_transfer'', pr_estimated_completion = ''< 5 seconds'',
               pr_executed_at = now_executed env,
               pr_transaction_details = BINR_details w (net_amount s) ''0.0001''\<rparr>)"

definition processBGTSettlement :: "settle_env \<Rightarrow> settlement \<Rightarrow> settlement_error + process_result" where
  "processBGTSettlement env s =
     (let transaction_hash = ''0x'' @ rand_txn env;
          gold_amount = jdiv (net_amount s) (Num 5650) in
      case account_field (merchant_account s) wallet_address of
        Inl e \<Rightarrow> Inl e
      | Inr w \<Rightarrow>
          (case account_field (merchant_account s) vault_provider of
             Inl e \<Rightarrow> Inl e
           | Inr vp \<Rightarrow>
               Inr \<lparr>pr_status = Completed, pr_transaction_ref = transaction_hash,
                    pr_settlement_method = ''bgt_transfer'', pr_estimated_completion = ''< 10 seconds'',
                    pr_executed_at = now_executed env,
                    pr_transaction_details =
                      BGT_details w (net_amount s) gold_amount
                        (if missing_str vp then ''MMTC-PAMP'' else str_of vp)\<rparr>))"

text \<open>
  \<^verbatim>\<open>processSettlement\<close> works on the object the map refers to (reference \<open>r\<close>). Its
  \<^verbatim>\<open>catch\<close> writes the failure into that object and throws the error again.
\<close>

definition processSettlement :: "engine \<Rightarrow> settle_env \<Rightarrow> nat \<Rightarrow> settlement \<Rightarrow> (settlement_error + process_result) \<times> engine" where
  "processSettlement e env r s =
     (let m = st_settlement_method s;
          outcome =
            (if m = ''inr_upi'' then processUPISettlement env s
             else if m = ''inr_neft'' then processNEFTettlement env s
             else if m = ''binr_transfer'' then processBINRSettlement env s
             else if m = ''bgt_transfer'' then processBGTSettlement env s
             else Inl (UnsupportedMethod m)) in
      case outcome of
        Inr result \<Rightarrow> (Inr result, e)
      | Inl error \<Rightarrow>
          (let failed = s\<lparr>st_status := Failed, error_message := Some error,
                           failed_at := Some (now_failed env)\<rparr> in
           (Inl error,
            e\<lparr>objects := (objects e)(r \<mapsto> failed),
              settlements := AList.update (settlement_id s) r (settlements e)\<rparr>)))"

record execution_result =
  er_settlement_id :: string
  er_status :: status
  er_estimated_completion :: string
  er_fees :: fees
  er_net_amount :: jsnum
  er_timestamp :: nat

text \<open>The settlement object that \<^verbatim>\<open>executeSettlement\<close> builds, fees and net amount filled in.\<close>

definition new_settlement :: "settle_env \<Rightarrow> settlement_data \<Rightarrow> method_config lookup \<Rightarrow> settlement" where
  "new_settlement env data config =
     (let a = num_of (req_amount data);
          fee0 = jmul (Num a) (to_number (config_fee config));
          gst0 = jmul fee0 (Num (18 / 100));
          total = jadd fee0 gst0
      in \<lparr>settlement_id = uuid env,
          st_payment_id = str_of (payment_id data),
          st_merchant_id = str_of (merchant_id data),
          st_amount = a,
          st_currency = str_of (currency data),
          st_settlement_method = str_of (settlement_method data),
          st_status = Pending,
          created_at = now_created env,
          st_metadata = (case metadata data of None \<Rightarrow> [] | Some md \<Rightarrow> md),
          merchant_account = merchant_account_details data,
          st_transaction_details = None,
          st_fees = \<lparr>settlement_fee = fee0, gst = Num 0, total_fee = total\<rparr>,
          net_amount = jsub (Num a) total,
          error_message = None,
          failed_at = None\<rparr>)"

definition executeSettlement :: "engine \<Rightarrow> settle_env \<Rightarrow> settlement_data \<Rightarrow> (settlement_error + execution_result) \<times> engine" where
  "executeSettlement e env data =
     (case validateSettlementData data of
        Some error \<Rightarrow> (Inl (ExecutionFailed error), e)
      | None \<Rightarrow>
          (let config = obj_get settlement_methods (str_of (settlement_method data)) in
           if config = Missing then (Inl (ExecutionFailed TypeError), e)
           else
             let s = new_settlement env data config;
                 r = next_ref e;
                 e1 = e\<lparr>objects := (objects e)(r \<mapsto> s), next_ref := Suc r,
                        settlements := AList.update (uuid env) r (settlements e)\<rparr>
             in case processSettlement e1 env r s of
                  (Inl error, e2) \<Rightarrow> (Inl (ExecutionFailed error), e2)
                | (Inr result, e2) \<Rightarrow>
                    (Inr \<lparr>er_settlement_id = uuid env, er_status = pr_status result,
                          er_estimated_completion = pr_estimated_completion result,
                          er_fees = st_fees s, er_net_amount = net_amount s,
                          er_timestamp = now_returned env\<rparr>, e2)))"

subsection \<open>Service layer\<close>

text \<open>
  The environment of one call of the service's \<^verbatim>\<open>executeSettlement\<close>: the settlement id,
  the clock and the random values at the places the call reads them, and the rounding
  errors of its fee calculation.
\<close>

record service_env =
  sv_uuid :: string
  sv_now_created :: nat
  sv_now_updated0 :: nat
  sv_now_estimate :: nat
  sv_now_txn :: nat
  sv_rand_ref :: string
  sv_rand_hash :: string
  sv_rand_block :: nat
  sv_now_updated :: nat
  sv_now_returned :: nat
  sv_rounding :: fee_rounding

definition service_validateSettlementData :: "settlement_data \<Rightarrow> settlement_error option" where
  "service_validateSettlementData data =
     (case first_missing
             [(''payment_id'', missing_str (payment_id data)),
              (''merchant_id'', missing_str (merchant_id data)),
              (''amount'', missing_num (req_amount data)),
              (''currency'', missing_str (currency data)),
              (''settlement_method'', missing_str (settlement_method data))] of
        Some f \<Rightarrow> Some (MissingField f)
      | None \<Rightarrow>
          (case obj_get service_settlement_methods (str_of (settlement_method data)) of
             Missing \<Rightarrow> Some (InvalidMethod (str_of (settlement_method data)))
           | Inherited \<Rightarrow>
               if str_of (currency data) \<notin> set supported_currencies
               then Some (UnsupportedCurrency (str_of (currency data))) else None
           | Own method \<Rightarrow>
               if num_of (req_amount data) < sm_minimum_amount method
               then Some (AmountBelowMinimum (sm_minimum_amount method))
               else if num_of (req_amount data) > sm_maximum_amount method
               then Some (AmountAboveMaximum (sm_maximum_amount method))
               else if str_of (currency data) \<notin> set supported_currencies
               then Some (UnsupportedCurrency (str_of (currency data)))
               else None))"

datatype service_transaction_details =
    Svc_upi "string option" string string
  | Svc_neft "string option" "string option" string string
  | Svc_binr_transfer "string option" string nat nat
  | Svc_bgt_transfer "string option" jsnum string nat
  | Svc_mixed jsnum jsnum string string

record service_settlement =
  ss_settlement_id :: string
  ss_payment_id :: string
  ss_merchant_id :: string
  ss_amount :: real
  ss_currency :: string
  ss_settlement_method :: string
  ss_status :: status
  ss_created_at :: nat
  ss_updated_at :: nat
  ss_metadata :: "(string \<times> string) list"
  ss_merchant_account :: account_value
  ss_transaction_details :: "service_transaction_details option"
  ss_fees :: service_fees
  ss_net_amount :: jsnum
  ss_error_message :: "settlement_error option"

record service_process_result =
  sp_status :: status
  sp_estimated_completion :: nat
  sp_transaction_details :: service_transaction_details

record service_engine =
  sv_objects :: "nat \<Rightarrow> service_settlement option"
  sv_next_ref :: nat
  sv_settlements :: "(string \<times> nat) list"

definition new_service_engine :: service_engine where
  "new_service_engine = \<lparr>sv_objects = (\<lambda>r. None), sv_next_ref = 0, sv_settlements = []\<rparr>"

text \<open>\<^verbatim>\<open>getSettlement(id)\<close>: the record the map holds, or \<^verbatim>\<open>null\<close>.\<close>

definition getSettlement :: "service_engine \<Rightarrow> string \<Rightarrow> service_settlement option" where
  "getSettlement e sid =
     (case map_of (sv_settlements e) sid of None \<Rightarrow> None | Some r \<Rightarrow> sv_objects e r)"

definition processUPI :: "service_env \<Rightarrow> service_settlement \<Rightarrow> settlement_error + service_process_result" where
  "processUPI env s =
     (case account_field (ss_merchant_account s) vpa of
        Inl e \<Rightarrow> Inl e
      | Inr v \<Rightarrow>
          Inr \<lparr>sp_status = Completed, sp_estimated_completion = sv_now_estimate env + 2000,
               sp_transaction_details =
                 Svc_upi v (''UPI'' @ decimal (sv_now_txn env)) (''UR'' @ sv_rand_ref env)\<rparr>)"

definition processNEFT :: "service_env \<Rightarrow> service_settlement \<Rightarrow> settlement_error + service_process_result" where
  "processNEFT env s =
     (case account_field (ss_merchant_account s) account_number of
        Inl e \<Rightarrow> Inl e
      | Inr acc \<Rightarrow>
          (case account_field (ss_merchant_account s) ifsc_code of
             Inl e \<Rightarrow> Inl e
           | Inr ifsc \<Rightarrow>
               Inr \<lparr>sp_status = Completed,
                    sp_estimated_completion = sv_now_estimate env + 24 * 60 * 60 * 1000,
                    sp_transaction_details =
                      Svc_neft acc ifsc (''NEFT'' @ decimal (sv_now_txn env))
                        (''REF'' @ sv_rand_ref env)\<rparr>))"

definition processBINR :: "service_env \<Rightarrow> service_settlement \<Rightarrow> settlement_error + service_process_result" where
  "processBINR env s =
     (case account_field (ss_merchant_account s) wallet_address of
        Inl e \<Rightarrow> Inl e
      | Inr w \<Rightarrow>
          Inr \<lparr>sp_status = Completed, sp_estimated_completion = sv_now_estimate env + 5000,
               sp_transaction_details =
                 Svc_binr_transfer w (''0x'' @ sv_rand_hash env)
                   (sv_rand_block env + 18000000) 21000\<rparr>)"

definition processBGT :: "service_env \<Rightarrow> service_settlement \<Rightarrow> settlement_error + service_process_result" where
  "processBGT env s =
     (case account_field (ss_merchant_account s) wallet_address of
        Inl e \<Rightarrow> Inl e
      | Inr w \<Rightarrow>
          Inr \<lparr>sp_status = Completed, sp_estimated_completion = sv_now_estimate env + 10000,
               sp_transaction_details =
                 Svc_bgt_transfer w (ss_net_amount s) (''0x'' @ sv_rand_hash env)
                   (sv_rand_block env + 18000000)\<rparr>)"

definition processMixed :: "service_env \<Rightarrow> service_settlement \<Rightarrow> settlement_error + service_process_result" where
  "processMixed env s =
     (let binr_amount = jmul (ss_net_amount s) (Num (1 / 2));
          inr_amount = jmul (ss_net_amount s) (Num (1 / 2)) in
      Inr \<lparr>sp_status = Completed, sp_estimated_completion = sv_now_estimate env + 15000,
           sp_transaction_details =
             Svc_mixed (round2 binr_amount) (round2 inr_amount) (''0x'' @ sv_rand_hash env)
               (''MI'' @ decimal (sv_now_txn env))\<rparr>)"

text \<open>
  The service's \<^verbatim>\<open>processSettlement\<close>: its \<^verbatim>\<open>catch\<close> writes the failure into the
  settlement object (reference \<open>r\<close>), which the map already refers to, and throws again.
\<close>

definition service_processSettlement :: "service_engine \<Rightarrow> service_env \<Rightarrow> nat \<Rightarrow> service_settlement \<Rightarrow> (settlement_error + service_process_result) \<times> service_engine" where
  "service_processSettlement e env r s =
     (let m = ss_settlement_method s;
          outcome =
            (if m = ''inr_upi'' then processUPI env s
             else if m = ''inr_neft'' then processNEFT env s
             else if m = ''binr_transfer'' then processBINR env s
             else if m = ''bgt_transfer'' then processBGT env s
             else if m = ''mixed_settlement'' then processMixed env s
             else Inl (UnknownMethod m)) in
      case outcome of
        Inr result \<Rightarrow> (Inr result, e)
      | Inl error \<Rightarrow>
          (Inl error,
           e\<lparr>sv_objects := (sv_objects e)
                (r \<mapsto> s\<lparr>ss_status := Failed, ss_error_message := Some error\<rparr>)\<rparr>))"

record service_execution_result =
  sr_settlement_id :: string
  sr_status :: status
  sr_estimated_completion :: nat
  sr_fees :: service_fees
  sr_net_amount :: jsnum
  sr_settlement_method :: string
  sr_timestamp :: nat

text \<open>
  The settlement object that the service's \<^verbatim>\<open>executeSettlement\<close> builds, once the fee
  calculation has been stored in it.
\<close>

definition new_service_settlement :: "service_env \<Rightarrow> settlement_data \<Rightarrow> service_fees \<Rightarrow> service_settlement" where
  "new_service_settlement env data fee_calculation =
     \<lparr>ss_settlement_id = sv_uuid env,
      ss_payment_id = str_of (payment_id data),
      ss_merchant_id = str_of (merchant_id data),
      ss_amount = num_of (req_amount data),
      ss_currency = str_of (currency data),
      ss_settlement_method = str_of (settlement_method data),
      ss_status = Pending,
      ss_created_at = sv_now_created env,
      ss_updated_at = sv_now_updated0 env,
      ss_metadata = (case metadata data of None \<Rightarrow> [] | Some md \<Rightarrow> md),
      ss_merchant_account = merchant_account_details data,
      ss_transaction_details = None,
      ss_fees = fee_calculation,
      ss_net_amount = jsub (Num (num_of (req_amount data))) (sf_total_fee fee_calculation),
      ss_error_message = None\<rparr>"

definition service_executeSettlement :: "service_engine \<Rightarrow> service_env \<Rightarrow> settlement_data \<Rightarrow> (settlement_error + service_execution_result) \<times> service_engine" where
  "service_executeSettlement e env data =
     (case service_validateSettlementData data of
        Some error \<Rightarrow> (Inl (ExecutionFailed error), e)
      | None \<Rightarrow>
          (case service_calculateFees (sv_rounding env) (num_of (req_amount data))
                  (str_of (settlement_method data)) of
             Inl error \<Rightarrow> (Inl (ExecutionFailed error), e)
           | Inr fee_calculation \<Rightarrow>
               (let s = new_service_settlement env data fee_calculation;
                    r = sv_next_ref e;
                    e1 = e\<lparr>sv_objects := (sv_objects e)(r \<mapsto> s), sv_next_ref := Suc r,
                           sv_settlements := AList.update (sv_uuid env) r (sv_settlements e)\<rparr>
                in case service_processSettlement e1 env r s of
                     (Inl error, e2) \<Rightarrow> (Inl (ExecutionFailed error), e2)
                   | (Inr result, e2) \<Rightarrow>
                       (let done = s\<lparr>ss_status := sp_status result,
                                      ss_updated_at := sv_now_updated env,
                                      ss_transaction_details := Some (sp_transaction_details result)\<rparr>
                        in (Inr \<lparr>sr_settlement_id = sv_uuid env, sr_status = sp_status result,
                                 sr_estimated_completion = sp_estimated_completion result,
                                 sr_fees = ss_fees done, sr_net_amount = ss_net_amount done,
                                 sr_settlement_method = str_of (settlement_method data),
                                 sr_timestamp = sv_now_returned env\<rparr>,
                            e2\<lparr>sv_objects := (sv_objects e2)(r \<mapsto> done),
                               sv_settlements :=
                                 AList.update (sv_uuid env) r (sv_settlements e2)\<rparr>)))))"

section \<open>Prices and conversion\<close>

text \<open>
  A string-valued property is a \<open>string lookup\<close>: \<open>Own s\<close> is the string \<open>s\<close>,
  \<open>Inherited\<close> a member of \<^verbatim>\<open>Object.prototype\<close>, \<open>Missing\<close> is \<^verbatim>\<open>undefined\<close>. A timestamp is
  an ISO string (modelled by its instant) or, in a cache entry, the number \<^verbatim>\<open>Date.now()\<close>.
\<close>

datatype jstime = Iso nat | Millis nat

datatype conversion_error =
    UnsupportedSourceAsset string
  | UnsupportedTargetAsset string
  | SameAsset
  | ConversionFailed conversion_error

text \<open>
  What one \<^verbatim>\<open>getPrice\<close> call reads from its environment: the clock at the places it is
  read, and \<open>random\<close>, the value of \<^verbatim>\<open>Math.random()\<close>, a number in \<open>[0, 1)\<close>.
  \<^verbatim>\<open>fetchPriceFromSource\<close> computes the price from a table and cannot fail, so the result
  of the \<^verbatim>\<open>try\<close> block of \<^verbatim>\<open>getPrice\<close> is always \<open>Inr\<close> and no call reaches its \<^verbatim>\<open>catch\<close>
  clause, which the model keeps as the \<open>Inl\<close> branch.
\<close>

record price_env =
  now_check :: nat
  random :: real
  now_fetched :: nat
  now_cached :: nat
  now_fallback :: nat

subsection \<open>Route layer: \<^verbatim>\<open>UTPConversionEngine\<close>\<close>

record price_data =
  asset_type :: string
  price :: jsval
  pd_currency :: string
  source :: "string lookup"
  timestamp :: jstime
  volatility :: "string lookup"
  confidence :: real

definition base_prices :: "(string \<times> real) list" where
  "base_prices =
     [(''bgt'', 5650), (''bst'', 725 / 10), (''bpt'', 3200), (''binr'', 1), (''rwa'', 100)]"

text \<open>\<^verbatim>\<open>table[key] || fallback\<close> on a table of numbers.\<close>

definition number_or_default :: "(string \<times> real) list \<Rightarrow> string \<Rightarrow> real \<Rightarrow> jsval" where
  "number_or_default tbl k fallback =
     (case obj_get tbl k of
        Own p \<Rightarrow> if p = 0 then N (Num fallback) else N (Num p)
      | Inherited \<Rightarrow> ProtoMember
      | Missing \<Rightarrow> N (Num fallback))"

text \<open>\<^verbatim>\<open>table[key] || fallback\<close> on a table of non-empty strings.\<close>

definition text_or_default :: "(string \<times> string) list \<Rightarrow> string \<Rightarrow> string \<Rightarrow> string lookup" where
  "text_or_default tbl k fallback =
     (case obj_get tbl k of
        Own t \<Rightarrow> if t = [] then Own fallback else Own t
      | Inherited \<Rightarrow> Inherited
      | Missing \<Rightarrow> Own fallback)"

definition getVolatilityLevel :: "string \<Rightarrow> string lookup" where
  "getVolatilityLevel asset =
     text_or_default
       [(''bgt'', ''low''), (''bst'', ''medium''), (''bpt'', ''high''), (''binr'', ''minimal''),
        (''rwa'', ''medium'')] asset ''medium''"

definition getPriceSource :: "string \<Rightarrow> string lookup" where
  "getPriceSource asset =
     text_or_default
       [(''bgt'', ''LBMA/MMEX''), (''bst'', ''LME''), (''bpt'', ''LPPM''),
        (''binr'', ''BINR Network''), (''rwa'', ''UTP Internal'')] asset ''UTP Internal''"

definition fetchPriceFromSource :: "price_env \<Rightarrow> string \<Rightarrow> conversion_error + price_data" where
  "fetchPriceFromSource env asset =
     (let p = number_or_default base_prices asset 100;
          vol = getVolatilityLevel asset;
          fluctuation = (random env - 1 / 2) * (2 / 1000);
          adjusted_price = jmul (to_number p) (Num (1 + fluctuation))
      in Inr \<lparr>asset_type = asset, price = N adjusted_price, pd_currency = ''INR'',
               source = getPriceSource asset, timestamp = Iso (now_fetched env),
               volatility = vol, confidence = 95 / 100\<rparr>)"

definition cache_key :: "string \<Rightarrow> string" where
  "cache_key asset = ''price_'' @ asset"

definition getCachedPrice :: "(string \<times> price_data) list \<Rightarrow> string \<Rightarrow> price_data option" where
  "getCachedPrice cache asset =
     (case map_of cache (cache_key asset) of
        Some cached \<Rightarrow> Some (cached\<lparr>source := Own ''cache'', confidence := 70 / 100\<rparr>)
      | None \<Rightarrow> None)"

definition getFallbackPrice :: "price_env \<Rightarrow> string \<Rightarrow> price_data" where
  "getFallbackPrice env asset =
     \<lparr>asset_type = asset, price = number_or_default base_prices asset 100, pd_currency = ''INR'',
      source = Own ''fallback'', timestamp = Iso (now_fallback env),
      volatility = Own ''unknown'', confidence = 50 / 100\<rparr>"

text \<open>\<^verbatim>\<open>(Date.now() - cached.timestamp) < 30000\<close>; against an ISO string the difference is NaN.\<close>

fun is_fresh :: "nat \<Rightarrow> jstime \<Rightarrow> bool" where
  "is_fresh now (Millis t) = (int now - int t < 30000)"
| "is_fresh now (Iso t) = False"

definition getPrice :: "(string \<times> price_data) list \<Rightarrow> price_env \<Rightarrow> string \<Rightarrow> (conversion_error + price_data) \<times> (string \<times> price_data) list" where
  "getPrice cache env asset =
     (case map_of cache (cache_key asset) of
        Some cached_price \<Rightarrow>
          if is_fresh (now_check env) (timestamp cached_price) then (Inr cached_price, cache)
          else
            (case fetchPriceFromSource env asset of
               Inr fresh_price \<Rightarrow>
                 (Inr fresh_price,
                  AList.update (cache_key asset)
                    (fresh_price\<lparr>timestamp := Millis (now_cached env)\<rparr>) cache)
             | Inl error \<Rightarrow>
                 (case getCachedPrice cache asset of
                    Some c \<Rightarrow> (Inr c, cache)
                  | None \<Rightarrow> (Inr (getFallbackPrice env asset), cache)))
      | None \<Rightarrow>
          (case fetchPriceFromSource env asset of
             Inr fresh_price \<Rightarrow>
               (Inr fresh_price,
                AList.update (cache_key asset)
                  (fresh_price\<lparr>timestamp := Millis (now_cached env)\<rparr>) cache)
           | Inl error \<Rightarrow>
               (case getCachedPrice cache asset of
                  Some c \<Rightarrow> (Inr c, cache)
                | None \<Rightarrow> (Inr (getFallbackPrice env asset), cache))))"

definition supported_assets :: "string list" where
  "supported_assets = [''bgt'', ''bst'', ''bpt'', ''binr'', ''rwa'']"

definition validateConversion :: "string \<Rightarrow> string \<Rightarrow> conversion_error option" where
  "validateConversion from_asset to_asset =
     (if from_asset \<notin> set supported_assets then Some (UnsupportedSourceAsset from_asset)
      else if to_asset \<notin> set supported_assets then Some (UnsupportedTargetAsset to_asset)
      else if from_asset = to_asset then Some SameAsset
      else None)"

definition slippage_protection :: bool where
  "slippage_protection = True"

definition max_slippage :: real where
  "max_slippage = 2 / 1000"

definition volatility_multipliers :: "(string \<times> real) list" where
  "volatility_multipliers = [(''low'', 1 / 2), (''medium'', 1), (''high'', 15 / 10), (''unknown'', 1)]"

text \<open>
  \<^verbatim>\<open>volatility_multipliers[volatility] || 1.0\<close>. A volatility that is not a string is turned
  into a key that the table does not have.
\<close>

definition volatility_multiplier :: "string lookup \<Rightarrow> jsval" where
  "volatility_multiplier vol =
     (case vol of
        Own v \<Rightarrow> number_or_default volatility_multipliers v 1
      | Inherited \<Rightarrow> N (Num 1)
      | Missing \<Rightarrow> N (Num 1))"

definition applySlippageProtection :: "real \<Rightarrow> jsnum \<Rightarrow> real \<Rightarrow> string lookup \<Rightarrow> jsnum \<times> jsnum" where
  "applySlippageProtection rnd conversion_rate amount vol =
     (let multiplier = volatility_multiplier vol;
          max_slip = jmul (Num max_slippage) (to_number multiplier);
          potential_slippage = jmul (jmul (Num rnd) max_slip) (Num (1 / 2));
          adjusted_rate = jmul conversion_rate (jsub (Num 1) potential_slippage);
          slippage_amount = jmul (Num amount) potential_slippage
      in (adjusted_rate, slippage_amount))"

text \<open>\<^verbatim>\<open>Math.log10\<close>.\<close>

fun jlog10 :: "jsnum \<Rightarrow> jsnum" where
  "jlog10 (Num a) = (if 0 < a then Num (log 10 a) else if a = 0 then NInf else NaN)"
| "jlog10 NaN = NaN"
| "jlog10 PInf = PInf"
| "jlog10 NInf = NaN"

text \<open>\<^verbatim>\<open>x < c\<close> for a number \<open>x\<close> and a finite constant \<open>c\<close>.\<close>

fun jless :: "jsnum \<Rightarrow> real \<Rightarrow> bool" where
  "jless (Num a) c = (a < c)"
| "jless NaN c = False"
| "jless PInf c = False"
| "jless NInf c = True"

definition getMarketImpactLevel :: "jsnum \<Rightarrow> string" where
  "getMarketImpactLevel impact =
     (if jless impact (5 / 10000) then ''minimal''
      else if jless impact (1 / 1000) then ''low''
      else if jless impact (2 / 1000) then ''medium''
      else ''high'')"

record market_impact =
  mi_percentage :: jsnum
  mi_absolute :: jsnum
  mi_assessment :: string

definition calculateMarketImpact :: "real \<Rightarrow> price_data \<Rightarrow> market_impact" where
  "calculateMarketImpact amount to_price_data =
     (let base_impact = Num (1 / 10000);
          impact_multiplier = jmul (jlog10 (Num (amount + 1))) (Num (5 / 100000))
      in \<lparr>mi_percentage = jadd base_impact impact_multiplier,
          mi_absolute = jmul (jadd base_impact impact_multiplier) (to_number (price to_price_data)),
          mi_assessment = getMarketImpactLevel (jadd base_impact impact_multiplier)\<rparr>)"

text \<open>
  The \<^verbatim>\<open>options\<close> argument: \<open>None\<close> is an absent property. Slippage protection is
  switched off only by \<^verbatim>\<open>slippage_protection: false\<close>.
\<close>

record conversion_options =
  opt_fee_rate :: "real option"
  opt_slippage_protection :: "bool option"

record asset_leg =
  leg_type :: string
  leg_amount :: jsnum
  price_per_unit :: jsval
  leg_currency :: string

record conversion_fees =
  conversion_fee :: real
  slippage :: jsnum
  cf_total_fee :: jsnum
  cf_fee_rate :: jsnum

record conversion =
  conversion_id :: string
  from_asset :: asset_leg
  to_asset :: asset_leg
  conversion_rate :: jsnum
  original_rate :: jsnum
  conv_fees :: conversion_fees
  conv_market_impact :: market_impact
  calculated_at :: nat
  valid_until :: nat
  from_price_source :: "string lookup"
  to_price_source :: "string lookup"
  price_confidence :: real

record convert_env =
  from_env :: price_env
  to_env :: price_env
  slip_random :: real
  conv_uuid :: string
  now_calculated :: nat
  now_valid :: nat
  now_key :: nat
  now_stored :: nat

text \<open>\<^verbatim>\<open>options.fee_rate || 0.0005\<close>: a rate of 0 is falsy and gives the default too.\<close>

definition conversion_fee_rate :: "conversion_options \<Rightarrow> real" where
  "conversion_fee_rate options =
     (case opt_fee_rate options of
        Some r \<Rightarrow> if r = 0 then 5 / 10000 else r
      | None \<Rightarrow> 5 / 10000)"

text \<open>
  The fee rate as the specification words it, \<^verbatim>\<open>options.fee_rate ?? 0.0005\<close>: the default
  only when no rate is given.
\<close>

definition spec_fee_rate :: "conversion_options \<Rightarrow> real" where
  "spec_fee_rate options = (case opt_fee_rate options of Some r \<Rightarrow> r | None \<Rightarrow> 5 / 10000)"

definition calculateConversion :: "convert_env \<Rightarrow> price_data \<Rightarrow> price_data \<Rightarrow> real \<Rightarrow> conversion_options \<Rightarrow> conversion" where
  "calculateConversion env from_price_data to_price_data amount options =
     (let from_price = price from_price_data;
          to_price = price to_price_data;
          rate = jdiv (to_number from_price) (to_number to_price);
          fee_rate1 = conversion_fee_rate options;
          fee0 = amount * fee_rate1;
          (actual_conversion_rate, slip) =
            (if slippage_protection \<and> opt_slippage_protection options \<noteq> Some False
             then applySlippageProtection (slip_random env) rate amount
                    (volatility to_price_data)
             else (rate, Num 0));
          final_converted_amount = jsub (jmul (Num amount) actual_conversion_rate) (Num fee0);
          total = jadd (Num fee0) slip
      in \<lparr>conversion_id = conv_uuid env,
          from_asset = \<lparr>leg_type = asset_type from_price_data, leg_amount = Num amount,
                        price_per_unit = from_price, leg_currency = pd_currency from_price_data\<rparr>,
          to_asset = \<lparr>leg_type = asset_type to_price_data, leg_amount = final_converted_amount,
                      price_per_unit = to_price, leg_currency = pd_currency to_price_data\<rparr>,
          conversion_rate = actual_conversion_rate,
          original_rate = rate,
          conv_fees = \<lparr>conversion_fee = fee0, slippage = slip, cf_total_fee = total,
                       cf_fee_rate = jadd (Num fee_rate1) (jdiv slip (Num amount))\<rparr>,
          conv_market_impact = calculateMarketImpact amount to_price_data,
          calculated_at = now_calculated env,
          valid_until = now_valid env + 5000,
          from_price_source = source from_price_data,
          to_price_source = source to_price_data,
          price_confidence = min (confidence from_price_data) (confidence to_price_data)\<rparr>)"

record history_entry =
  he_from_asset :: string
  he_to_asset :: string
  he_amount :: real
  he_conversion :: conversion
  he_timestamp :: nat

definition history_key :: "nat \<Rightarrow> string" where
  "history_key now = ''conversion_'' @ decimal now"

definition storeConversionHistory :: "(string \<times> history_entry) list \<Rightarrow> convert_env \<Rightarrow> string \<Rightarrow> string \<Rightarrow> real \<Rightarrow> conversion \<Rightarrow> (string \<times> history_entry) list" where
  "storeConversionHistory history env from_a to_a amount conv =
     (let h = AList.update (history_key (now_key env))
                \<lparr>he_from_asset = from_a, he_to_asset = to_a, he_amount = amount,
                 he_conversion = conv, he_timestamp = now_stored env\<rparr> history
      in if length h > 10000
         then (case h of [] \<Rightarrow> h | (first_key, v) # rest \<Rightarrow> AList.delete first_key h)
         else h)"

record conversion_engine =
  price_cache :: "(string \<times> price_data) list"
  conversion_history :: "(string \<times> history_entry) list"

definition new_conversion_engine :: conversion_engine where
  "new_conversion_engine = \<lparr>price_cache = [], conversion_history = []\<rparr>"

definition convert :: "conversion_engine \<Rightarrow> convert_env \<Rightarrow> string \<Rightarrow> string \<Rightarrow> real \<Rightarrow> conversion_options \<Rightarrow> (conversion_error + conversion) \<times> conversion_engine" where
  "convert e env from_a to_a amount options =
     (case validateConversion from_a to_a of
        Some error \<Rightarrow> (Inl (ConversionFailed error), e)
      | None \<Rightarrow>
          (case getPrice (price_cache e) (from_env env) from_a of
             (Inl error, cache1) \<Rightarrow> (Inl (ConversionFailed error), e\<lparr>price_cache := cache1\<rparr>)
           | (Inr from_price_data, cache1) \<Rightarrow>
               (case getPrice cache1 (to_env env) to_a of
                  (Inl error, cache2) \<Rightarrow>
                    (Inl (ConversionFailed error), e\<lparr>price_cache := cache2\<rparr>)
                | (Inr to_price_data, cache2) \<Rightarrow>
                    (let conv = calculateConversion env from_price_data to_price_data amount
                                  options
                     in (Inr conv,
                         e\<lparr>price_cache := cache2,
                           conversion_history :=
                             storeConversionHistory (conversion_history e) env from_a to_a
                               amount conv\<rparr>)))))"

text \<open>
  \<^verbatim>\<open>getConversionHistory(limit)\<close>: the entries with their keys, newest timestamp first (the
  sort is stable), cut to \<open>limit\<close>; and their count.
\<close>

definition getConversionHistory :: "conversion_engine \<Rightarrow> nat \<Rightarrow> (string \<times> history_entry) list \<times> nat" where
  "getConversionHistory e limit =
     (let history = take limit
            (sort_key (\<lambda>x. - int (he_timestamp (snd x))) (conversion_history e))
      in (history, length history))"

subsection \<open>Service layer: \<^verbatim>\<open>UTPConversionService\<close>\<close>

record service_price_data =
  sp_asset_type :: string
  sp_price :: jsval
  sp_currency :: string
  sp_source :: "string lookup"
  sp_timestamp :: jstime
  sp_volatility :: jsval
  sp_confidence :: real

definition price_sources :: "(string \<times> string) list" where
  "price_sources =
     [(''bgt'', ''LBMA Gold Fix''), (''bst'', ''LME Silver''), (''bpt'', ''LPPM Platinum''),
      (''binr'', ''Fixed Rate''), (''rwa'', ''Dynamic Market'')]"

definition service_getVolatilityLevel :: "string \<Rightarrow> jsval" where
  "service_getVolatilityLevel asset =
     number_or_default
       [(''bgt'', 1 / 1000), (''bst'', 3 / 1000), (''bpt'', 5 / 1000), (''binr'', 1 / 10000),
        (''rwa'', 2 / 1000)] asset (2 / 1000)"

definition service_fetchPriceFromSource :: "price_env \<Rightarrow> string \<Rightarrow> conversion_error + service_price_data" where
  "service_fetchPriceFromSource env asset =
     (let base_price = number_or_default base_prices asset 100;
          vol = service_getVolatilityLevel asset;
          fluctuation = (random env - 1 / 2) * (2 / 1000);
          adjusted_price = jmul (to_number base_price) (Num (1 + fluctuation))
      in Inr \<lparr>sp_asset_type = asset, sp_price = N (round2 adjusted_price),
               sp_currency = ''INR'', sp_source = obj_get price_sources asset,
               sp_timestamp = Iso (now_fetched env), sp_volatility = vol,
               sp_confidence = 95 / 100\<rparr>)"

definition service_getFallbackPrice :: "price_env \<Rightarrow> string \<Rightarrow> service_price_data" where
  "service_getFallbackPrice env asset =
     \<lparr>sp_asset_type = asset, sp_price = number_or_default base_prices asset 100,
      sp_currency = ''INR'', sp_source = Own ''fallback'', sp_timestamp = Iso (now_fallback env),
      sp_volatility = service_getVolatilityLevel asset, sp_confidence = 60 / 100\<rparr>"

definition service_getPrice :: "(string \<times> service_price_data) list \<Rightarrow> price_env \<Rightarrow> string \<Rightarrow> (conversion_error + service_price_data) \<times> (string \<times> service_price_data) list" where
  "service_getPrice cache env asset =
     (case map_of cache (cache_key asset) of
        Some cached_price \<Rightarrow>
          if is_fresh (now_check env) (sp_timestamp cached_price)
          then (Inr (cached_price\<lparr>sp_source := Own ''cache''\<rparr>), cache)
          else
            (case service_fetchPriceFromSource env asset of
               Inr fresh_price \<Rightarrow>
                 (Inr fresh_price,
                  AList.update (cache_key asset)
                    (fresh_price\<lparr>sp_timestamp := Millis (now_cached env)\<rparr>) cache)
             | Inl error \<Rightarrow> (Inr (service_getFallbackPrice env asset), cache))
      | None \<Rightarrow>
          (case service_fetchPriceFromSource env asset of
             Inr fresh_price \<Rightarrow>
               (Inr fresh_price,
                AList.update (cache_key asset)
                  (fresh_price\<lparr>sp_timestamp := Millis (now_cached env)\<rparr>) cache)
           | Inl error \<Rightarrow> (Inr (service_getFallbackPrice env asset), cache)))"

text \<open>\<^verbatim>\<open>Math.min\<close> of two numbers.\<close>

fun jmin :: "jsnum \<Rightarrow> jsnum \<Rightarrow> jsnum" where
  "jmin (Num a) (Num b) = Num (min a b)"
| "jmin NaN _ = NaN"
| "jmin _ NaN = NaN"
| "jmin NInf _ = NInf"
| "jmin _ NInf = NInf"
| "jmin PInf b = b"
| "jmin a PInf = a"

text \<open>
  \<^verbatim>\<open>calculateSlippage\<close>. When a volatility is not a number, \<^verbatim>\<open>+\<close> concatenates strings and
  the division by 2 gives NaN, which is also what adding NaN gives.
\<close>

definition calculateSlippage :: "string \<Rightarrow> string \<Rightarrow> jsnum \<Rightarrow> jsnum" where
  "calculateSlippage from_a to_a rate =
     (if \<not> slippage_protection then Num 0
      else
        let from_volatility = service_getVolatilityLevel from_a;
            to_volatility = service_getVolatilityLevel to_a;
            avg_volatility =
              jdiv (jadd (to_number from_volatility) (to_number to_volatility)) (Num 2)
        in jmin (jmul avg_volatility (Num (1 / 10))) (Num max_slippage))"

record service_conversion_details =
  scd_from_asset :: string
  scd_to_asset :: string
  scd_fee_rate :: real
  scd_price_from :: jsval
  scd_price_to :: jsval
  scd_timestamp :: nat

text \<open>
  The result of \<^verbatim>\<open>convertAmount\<close>. The same-asset answer has the first six properties only
  (\<open>sc_details = None\<close>).
\<close>

record service_conversion =
  sc_from_amount :: real
  sc_to_amount :: jsnum
  sc_rate :: jsnum
  sc_fee :: jsnum
  sc_net_amount :: jsnum
  sc_slippage :: jsnum
  sc_details :: "service_conversion_details option"

record service_convert_env =
  sc_from_env :: price_env
  sc_to_env :: price_env
  sc_now :: nat

definition convertAmount :: "(string \<times> service_price_data) list \<Rightarrow> service_convert_env \<Rightarrow> string \<Rightarrow> string \<Rightarrow> real \<Rightarrow> (conversion_error + service_conversion) \<times> (string \<times> service_price_data) list" where
  "convertAmount cache env from_a to_a amount =
     (if from_a = to_a
      then (Inr \<lparr>sc_from_amount = amount, sc_to_amount = Num amount, sc_rate = Num 1,
                 sc_fee = Num 0, sc_net_amount = Num amount, sc_slippage = Num 0,
                 sc_details = None\<rparr>, cache)
      else
        (case service_getPrice cache (sc_from_env env) from_a of
           (Inl error, cache1) \<Rightarrow> (Inl (ConversionFailed error), cache1)
         | (Inr from_price, cache1) \<Rightarrow>
             (case service_getPrice cache1 (sc_to_env env) to_a of
                (Inl error, cache2) \<Rightarrow> (Inl (ConversionFailed error), cache2)
              | (Inr to_price, cache2) \<Rightarrow>
                  (let rate = jdiv (to_number (sp_price from_price))
                                (to_number (sp_price to_price));
                       converted_amount = jmul (Num amount) rate;
                       slip = calculateSlippage from_a to_a rate;
                       slippage_amount = jmul converted_amount slip;
                       fee_rate0 = 25 / 10000;
                       fee_amount = jmul (jsub converted_amount slippage_amount) (Num fee_rate0);
                       net = jsub (jsub converted_amount slippage_amount) fee_amount
                   in (Inr \<lparr>sc_from_amount = amount,
                            sc_to_amount = round2 converted_amount,
                            sc_rate = jdiv (jround (jmul rate (Num 100000))) (Num 100000),
                            sc_fee = round2 fee_amount,
                            sc_net_amount = round2 net,
                            sc_slippage = jdiv (jround (jmul slip (Num 10000))) (Num 100),
                            sc_details =
                              Some \<lparr>scd_from_asset = from_a, scd_to_asset = to_a,
                                    scd_fee_rate = fee_rate0 * 100,
                                    scd_price_from = sp_price from_price,
                                    scd_price_to = sp_price to_price,
                                    scd_timestamp = sc_now env\<rparr>\<rparr>, cache2)))))"

subsection \<open>Sample conversion inputs\<close>

text \<open>A price environment with no fluctuation (\<^verbatim>\<open>Math.random()\<close> gives 0.5) at instant \<open>t\<close>.\<close>

definition sample_price_env :: "nat \<Rightarrow> price_env" where
  "sample_price_env t =
     \<lparr>now_check = t, random = 1 / 2, now_fetched = t, now_cached = t, now_fallback = t\<rparr>"

definition sample_convert_env :: "nat \<Rightarrow> string \<Rightarrow> convert_env" where
  "sample_convert_env t u =
     \<lparr>from_env = sample_price_env t, to_env = sample_price_env t, slip_random = 0,
      conv_uuid = u, now_calculated = t, now_valid = t, now_key = t, now_stored = t\<rparr>"

definition default_options :: conversion_options where
  "default_options = \<lparr>opt_fee_rate = None, opt_slippage_protection = None\<rparr>"

subsection \<open>Sequences of calls, and sample inputs\<close>

text \<open>A sequence of \<^verbatim>\<open>executeSettlement\<close> calls on one engine, each with its environment.\<close>

fun executeSettlements :: "engine \<Rightarrow> (settle_env \<times> settlement_data) list \<Rightarrow> engine" where
  "executeSettlements e [] = e"
| "executeSettlements e ((env, data) # calls) =
     executeSettlements (snd (executeSettlement e env data)) calls"

fun service_executeSettlements :: "service_engine \<Rightarrow> (service_env \<times> settlement_data) list \<Rightarrow> service_engine" where
  "service_executeSettlements e [] = e"
| "service_executeSettlements e ((env, data) # calls) =
     service_executeSettlements (snd (service_executeSettlement e env data)) calls"

text \<open>A well-formed request, and environments whose version-4 UUIDs differ from call to call.\<close>

definition sample_account :: account where
  "sample_account =
     \<lparr>upi_id = Some ''merchant@upi'', vpa = Some ''merchant@upi'',
      account_number = Some ''1234567890'', ifsc_code = Some ''HDFC0001234'',
      wallet_address = Some ''0xabc'', vault_provider = None\<rparr>"

definition sample_request :: settlement_data where
  "sample_request =
     \<lparr>payment_id = Some ''pay_1'', merchant_id = Some ''merchant_1'', req_amount = Some 1000,
      currency = Some ''INR'', settlement_method = Some ''inr_upi'',
      merchant_account_details = AcctTruthy sample_account, metadata = None\<rparr>"

definition sample_uuid :: "nat \<Rightarrow> string" where
  "sample_uuid n = ''00000000-0000-4000-8000-'' @ decimal (100000000000 + n)"

definition sample_env :: "nat \<Rightarrow> settle_env" where
  "sample_env n =
     \<lparr>uuid = sample_uuid n, now_created = 1700000000000 + n, now_txn = 1700000000000 + n,
      rand_txn = ''k3x9qa'', now_executed = 1700000000000 + n, now_failed = 1700000000000 + n,
      now_returned = 1700000000000 + n\<rparr>"

definition sample_service_env :: "nat \<Rightarrow> service_env" where
  "sample_service_env n =
     \<lparr>sv_uuid = sample_uuid n, sv_now_created = 1700000000000 + n,
      sv_now_updated0 = 1700000000000 + n, sv_now_estimate = 1700000001000 + n,
      sv_now_txn = 1700000001000 + n, sv_rand_ref = ''K3X9QA7BC'', sv_rand_hash = ''9f3c'',
      sv_rand_block = 4242, sv_now_updated = 1700000001000 + n,
      sv_now_returned = 1700000001000 + n,
      sv_rounding = \<lparr>settlement_fee_error = 0, gst_error = 0, total_fee_error = 0\<rparr>\<rparr>"

definition sample_calls :: "nat \<Rightarrow> (settle_env \<times> settlement_data) list" where
  "sample_calls n = map (\<lambda>k. (sample_env k, sample_request)) [0..<n]"

definition sample_service_calls :: "nat \<Rightarrow> (service_env \<times> settlement_data) list" where
  "sample_service_calls n = map (\<lambda>k. (sample_service_env k, sample_request)) [0..<n]"

subsection \<open>Allocated references\<close>

text \<open>
  The map of an engine refers to settlement objects by reference. In a state that the
  engine can reach, every reference that the map holds has been allocated, so the next
  object is a new one.
\<close>

definition refs_allocated :: "engine \<Rightarrow> bool" where
  "refs_allocated e = list_all (\<lambda>(k, r). r < next_ref e) (settlements e)"

definition service_refs_allocated :: "service_engine \<Rightarrow> bool" where
  "service_refs_allocated e = list_all (\<lambda>(k, r). r < sv_next_ref e) (sv_settlements e)"

section \<open>Verified properties\<close>

subsection \<open>Helper facts\<close>




lemma digit_value: "k < 10 \<Longrightarrow> of_char (digit k) - 48 = k"
proof -
  assume "k < 10"
  then have "k = 0 \<or> k = 1 \<or> k = 2 \<or> k = 3 \<or> k = 4 \<or> k = 5 \<or> k = 6 \<or> k = 7
      \<or> k = 8 \<or> k = 9"
    by arith
  then show ?thesis
    by (auto simp: digit_def)
qed

lemma numeral_value_decimal: "numeral_value (decimal n) = n"
proof (induction n rule: decimal.induct)
  case (1 n)
  show ?case
  proof (cases "n < 10")
    case True
    then show ?thesis
      by (subst decimal.simps) (simp add: numeral_value_def digit_value)
  next
    case False
    then have "numeral_value (decimal (n div 10)) = n div 10"
      using 1 by simp
    then show ?thesis
      using False
      by (subst decimal.simps) (simp add: numeral_value_def digit_value)
  qed
qed

lemma decimal_inj: "decimal a = decimal b \<Longrightarrow> a = b"
  by (metis numeral_value_decimal)

lemma sample_uuid_inj: "sample_uuid a = sample_uuid b \<Longrightarrow> a = b"
  by (auto simp: sample_uuid_def dest: decimal_inj)

subsection \<open>Facts about the settlement engines\<close>

lemma new_settlement_sel [simp]:
  "settlement_id (new_settlement env d c) = uuid env"
  "st_settlement_method (new_settlement env d c) = str_of (settlement_method d)"
  "merchant_account (new_settlement env d c) = merchant_account_details d"
  "st_status (new_settlement env d c) = Pending"
  by (simp_all add: new_settlement_def Let_def)

lemma new_service_settlement_sel [simp]:
  "ss_settlement_id (new_service_settlement env d f) = sv_uuid env"
  "ss_settlement_method (new_service_settlement env d f) = str_of (settlement_method d)"
  "ss_merchant_account (new_service_settlement env d f) = merchant_account_details d"
  "ss_status (new_service_settlement env d f) = Pending"
  by (simp_all add: new_service_settlement_def)

lemma processUPISettlement_Inr:
  "processUPISettlement env s = Inr res \<Longrightarrow> pr_status res = Completed"
  by (auto simp: processUPISettlement_def Let_def split: sum.splits)

lemma processNEFTettlement_Inr:
  "processNEFTettlement env s = Inr res \<Longrightarrow> pr_status res = Processing"
  by (auto simp: processNEFTettlement_def Let_def split: sum.splits)

lemma processBINRSettlement_Inr:
  "processBINRSettlement env s = Inr res \<Longrightarrow> pr_status res = Completed"
  by (auto simp: processBINRSettlement_def Let_def split: sum.splits)

lemma processBGTSettlement_Inr:
  "processBGTSettlement env s = Inr res \<Longrightarrow> pr_status res = Completed"
  by (auto simp: processBGTSettlement_def Let_def split: sum.splits)

lemma account_field_truthy: "account_field (AcctTruthy acct) f = Inr (f acct)"
  by simp

lemma process_truthy:
  assumes "merchant_account s = AcctTruthy acct"
  shows "\<not> isl (processUPISettlement env s)" "\<not> isl (processNEFTettlement env s)"
    "\<not> isl (processBINRSettlement env s)" "\<not> isl (processBGTSettlement env s)"
  using assms
  by (simp_all add: processUPISettlement_def processNEFTettlement_def
      processBINRSettlement_def processBGTSettlement_def Let_def)

text \<open>The \<^verbatim>\<open>switch\<close> of \<^verbatim>\<open>processSettlement\<close>.\<close>

lemma processSettlement_cases:
  obtains (ok) res where
      "st_settlement_method s \<in> {''inr_upi'', ''inr_neft'', ''binr_transfer'', ''bgt_transfer''}"
      "processSettlement e env r s = (Inr res, e)"
      "pr_status res = (if st_settlement_method s = ''inr_neft'' then Processing else Completed)"
  | (failed) err where
      "processSettlement e env r s =
         (Inl err,
          e\<lparr>objects := (objects e)
               (r \<mapsto> s\<lparr>st_status := Failed, error_message := Some err,
                        failed_at := Some (now_failed env)\<rparr>),
            settlements := AList.update (settlement_id s) r (settlements e)\<rparr>)"
      "merchant_account s = AcctAbsent
         \<or> st_settlement_method s \<notin> {''inr_upi'', ''inr_neft'', ''binr_transfer'', ''bgt_transfer''}"
proof -
  define m where "m = st_settlement_method s"
  define outcome where "outcome =
            (if m = ''inr_upi'' then processUPISettlement env s
             else if m = ''inr_neft'' then processNEFTettlement env s
             else if m = ''binr_transfer'' then processBINRSettlement env s
             else if m = ''bgt_transfer'' then processBGTSettlement env s
             else Inl (UnsupportedMethod m))"
  have p: "processSettlement e env r s =
      (case outcome of
        Inr result \<Rightarrow> (Inr result, e)
      | Inl error \<Rightarrow>
           (Inl error,
            e\<lparr>objects := (objects e)(r \<mapsto> s\<lparr>st_status := Failed, error_message := Some error,
                           failed_at := Some (now_failed env)\<rparr>),
              settlements := AList.update (settlement_id s) r (settlements e)\<rparr>))"
    unfolding processSettlement_def Let_def outcome_def m_def by (rule refl)
  show thesis
  proof (cases outcome)
    case (Inl err)
    have "merchant_account s = AcctAbsent
         \<or> m \<notin> {''inr_upi'', ''inr_neft'', ''binr_transfer'', ''bgt_transfer''}"
    proof (cases "merchant_account s")
      case AcctAbsent
      then show ?thesis by simp
    next
      case AcctFalsy
      then show ?thesis
        using Inl
        by (auto simp: outcome_def processUPISettlement_def processNEFTettlement_def
            processBINRSettlement_def processBGTSettlement_def Let_def split: if_splits)
    next
      case (AcctTruthy acct)
      then show ?thesis
        using Inl
        by (auto simp: outcome_def processUPISettlement_def processNEFTettlement_def
            processBINRSettlement_def processBGTSettlement_def Let_def split: if_splits)
    qed
    then show ?thesis
      using failed [of err] p Inl by (simp add: m_def)
  next
    case (Inr res)
    then have "m \<in> {''inr_upi'', ''inr_neft'', ''binr_transfer'', ''bgt_transfer''}"
      by (auto simp: outcome_def split: if_splits)
    moreover have "pr_status res = (if m = ''inr_neft'' then Processing else Completed)"
      using Inr
      by (auto simp: outcome_def split: if_splits
          dest: processUPISettlement_Inr processNEFTettlement_Inr processBINRSettlement_Inr
            processBGTSettlement_Inr)
    ultimately show ?thesis
      using ok [of res] p Inr by (simp add: m_def)
  qed
qed

lemma validate_not_Missing:
  "validateSettlementData d = None \<Longrightarrow>
     obj_get settlement_methods (str_of (settlement_method d)) \<noteq> Missing"
  by (auto simp: validateSettlementData_def split: option.splits lookup.splits)

lemma executeSettlement_invalid:
  "validateSettlementData d = Some err \<Longrightarrow>
     executeSettlement e env d = (Inl (ExecutionFailed err), e)"
  by (simp add: executeSettlement_def)

text \<open>The three outcomes of \<^verbatim>\<open>executeSettlement\<close>.\<close>

lemma executeSettlement_cases:
  obtains (invalid) err where "validateSettlementData d = Some err"
      "executeSettlement e env d = (Inl (ExecutionFailed err), e)"
  | (settled) res s where "validateSettlementData d = None"
      "s = new_settlement env d (obj_get settlement_methods (str_of (settlement_method d)))"
      "str_of (settlement_method d)
         \<in> {''inr_upi'', ''inr_neft'', ''binr_transfer'', ''bgt_transfer''}"
      "fst (executeSettlement e env d) = Inr res"
      "er_status res
         = (if str_of (settlement_method d) = ''inr_neft'' then Processing else Completed)"
      "snd (executeSettlement e env d) =
         e\<lparr>objects := (objects e)(next_ref e \<mapsto> s), next_ref := Suc (next_ref e),
           settlements := AList.update (uuid env) (next_ref e) (settlements e)\<rparr>"
  | (failed) err s where "validateSettlementData d = None"
      "s = new_settlement env d (obj_get settlement_methods (str_of (settlement_method d)))"
      "merchant_account_details d = AcctAbsent
         \<or> str_of (settlement_method d)
             \<notin> {''inr_upi'', ''inr_neft'', ''binr_transfer'', ''bgt_transfer''}"
      "fst (executeSettlement e env d) = Inl (ExecutionFailed err)"
      "snd (executeSettlement e env d) =
         e\<lparr>objects := (objects e)
              (next_ref e \<mapsto> s\<lparr>st_status := Failed, error_message := Some err,
                               failed_at := Some (now_failed env)\<rparr>),
           next_ref := Suc (next_ref e),
           settlements := AList.update (uuid env) (next_ref e) (settlements e)\<rparr>"
proof (cases "validateSettlementData d")
  case (Some err)
  then show ?thesis
    using invalid executeSettlement_invalid by blast
next
  case None
  define s where "s = new_settlement env d (obj_get settlement_methods (str_of (settlement_method d)))"
  define e1 where "e1 = e\<lparr>objects := (objects e)(next_ref e \<mapsto> s), next_ref := Suc (next_ref e),
                        settlements := AList.update (uuid env) (next_ref e) (settlements e)\<rparr>"
  have ex: "executeSettlement e env d =
      (case processSettlement e1 env (next_ref e) s of
                  (Inl error, e2) \<Rightarrow> (Inl (ExecutionFailed error), e2)
                | (Inr result, e2) \<Rightarrow>
                    (Inr \<lparr>er_settlement_id = uuid env, er_status = pr_status result,
                          er_estimated_completion = pr_estimated_completion result,
                          er_fees = st_fees s, er_net_amount = net_amount s,
                          er_timestamp = now_returned env\<rparr>, e2))"
    unfolding executeSettlement_def Let_def s_def e1_def
    using None validate_not_Missing [OF None] by simp
  show ?thesis
  proof (cases rule: processSettlement_cases [of s e1 env "next_ref e"])
    case (ok res)
    show ?thesis
    proof (rule settled [OF None s_def])
      show "str_of (settlement_method d)
         \<in> {''inr_upi'', ''inr_neft'', ''binr_transfer'', ''bgt_transfer''}"
        using ok(1) by (simp add: s_def)
      show "fst (executeSettlement e env d) = Inr \<lparr>er_settlement_id = uuid env, er_status = pr_status res,
                          er_estimated_completion = pr_estimated_completion res,
                          er_fees = st_fees s, er_net_amount = net_amount s,
                          er_timestamp = now_returned env\<rparr>"
        by (simp add: ex ok(2))
      show "er_status \<lparr>er_settlement_id = uuid env, er_status = pr_status res,
                          er_estimated_completion = pr_estimated_completion res,
                          er_fees = st_fees s, er_net_amount = net_amount s,
                          er_timestamp = now_returned env\<rparr>
         = (if str_of (settlement_method d) = ''inr_neft'' then Processing else Completed)"
        using ok(3) by (simp add: s_def)
      show "snd (executeSettlement e env d) =
         e\<lparr>objects := (objects e)(next_ref e \<mapsto> s), next_ref := Suc (next_ref e),
           settlements := AList.update (uuid env) (next_ref e) (settlements e)\<rparr>"
        unfolding ex ok(2) by (simp add: e1_def)
    qed
  next
    case (failed err)
    show ?thesis
    proof (rule that(3) [OF None s_def])
      show "merchant_account_details d = AcctAbsent
         \<or> str_of (settlement_method d)
             \<notin> {''inr_upi'', ''inr_neft'', ''binr_transfer'', ''bgt_transfer''}"
        using failed(2) by (simp add: s_def)
      show "fst (executeSettlement e env d) = Inl (ExecutionFailed err)"
        by (simp add: ex failed(1))
      show "snd (executeSettlement e env d) =
         e\<lparr>objects := (objects e)
              (next_ref e \<mapsto> s\<lparr>st_status := Failed, error_message := Some err,
                               failed_at := Some (now_failed env)\<rparr>),
           next_ref := Suc (next_ref e),
           settlements := AList.update (uuid env) (next_ref e) (settlements e)\<rparr>"
        unfolding ex failed(1) by (simp add: e1_def s_def)
    qed
  qed
qed

lemma executeSettlement_settlements:
  "settlements (snd (executeSettlement e env d)) =
     (if validateSettlementData d = None
      then AList.update (uuid env) (next_ref e) (settlements e) else settlements e)"
  by (cases rule: executeSettlement_cases [of d e env]) simp_all

lemma executeSettlement_failed_status:
  assumes "validateSettlementData d = None" "isl (fst (executeSettlement e env d))"
  shows "map_option st_status (settlements_get (snd (executeSettlement e env d)) (uuid env))
         = Some Failed"
  using assms
  by (cases rule: executeSettlement_cases [of d e env])
    (simp_all add: settlements_get_def update_conv')

lemma executeSettlement_settled_status:
  assumes "fst (executeSettlement e env d) = Inr res"
  shows "er_status res
         = (if str_of (settlement_method d) = ''inr_neft'' then Processing else Completed)
    \<and> map_option st_status (settlements_get (snd (executeSettlement e env d)) (uuid env))
         = Some Pending"
  using assms
  by (cases rule: executeSettlement_cases [of d e env])
    (simp_all add: settlements_get_def update_conv')

lemma service_process_Inr:
  "processUPI env s = Inr res \<Longrightarrow> sp_status res = Completed"
  "processNEFT env s = Inr res \<Longrightarrow> sp_status res = Completed"
  "processBINR env s = Inr res \<Longrightarrow> sp_status res = Completed"
  "processBGT env s = Inr res \<Longrightarrow> sp_status res = Completed"
  "processMixed env s = Inr res \<Longrightarrow> sp_status res = Completed"
  by (auto simp: processUPI_def processNEFT_def processBINR_def processBGT_def
      processMixed_def Let_def split: sum.splits)

lemma service_processSettlement_cases:
  obtains (ok) res where
      "ss_settlement_method s
         \<in> {''inr_upi'', ''inr_neft'', ''binr_transfer'', ''bgt_transfer'', ''mixed_settlement''}"
      "service_processSettlement e env r s = (Inr res, e)"
      "sp_status res = Completed"
  | (failed) err where
      "service_processSettlement e env r s =
         (Inl err,
          e\<lparr>sv_objects := (sv_objects e)
               (r \<mapsto> s\<lparr>ss_status := Failed, ss_error_message := Some err\<rparr>)\<rparr>)"
      "ss_merchant_account s = AcctAbsent
         \<or> ss_settlement_method s
             \<notin> {''inr_upi'', ''inr_neft'', ''binr_transfer'', ''bgt_transfer'',
                 ''mixed_settlement''}"
proof -
  define m where "m = ss_settlement_method s"
  define outcome where "outcome =
            (if m = ''inr_upi'' then processUPI env s
             else if m = ''inr_neft'' then processNEFT env s
             else if m = ''binr_transfer'' then processBINR env s
             else if m = ''bgt_transfer'' then processBGT env s
             else if m = ''mixed_settlement'' then processMixed env s
             else Inl (UnknownMethod m))"
  have p: "service_processSettlement e env r s =
      (case outcome of
        Inr result \<Rightarrow> (Inr result, e)
      | Inl error \<Rightarrow>
          (Inl error,
           e\<lparr>sv_objects := (sv_objects e)
                (r \<mapsto> s\<lparr>ss_status := Failed, ss_error_message := Some error\<rparr>)\<rparr>))"
    unfolding service_processSettlement_def Let_def outcome_def m_def by (rule refl)
  show thesis
  proof (cases outcome)
    case (Inl err)
    have "ss_merchant_account s = AcctAbsent
         \<or> m \<notin> {''inr_upi'', ''inr_neft'', ''binr_transfer'', ''bgt_transfer'',
                 ''mixed_settlement''}"
    proof (cases "ss_merchant_account s")
      case AcctAbsent
      then show ?thesis by simp
    next
      case AcctFalsy
      then show ?thesis
        using Inl
        by (auto simp: outcome_def processUPI_def processNEFT_def processBINR_def
            processBGT_def processMixed_def Let_def split: if_splits)
    next
      case (AcctTruthy acct)
      then show ?thesis
        using Inl
        by (auto simp: outcome_def processUPI_def processNEFT_def processBINR_def
            processBGT_def processMixed_def Let_def split: if_splits)
    qed
    then show ?thesis
      using failed [of err] p Inl by (simp add: m_def)
  next
    case (Inr res)
    then have "m \<in> {''inr_upi'', ''inr_neft'', ''binr_transfer'', ''bgt_transfer'',
                     ''mixed_settlement''}"
      by (auto simp: outcome_def split: if_splits)
    moreover have "sp_status res = Completed"
      using Inr by (auto simp: outcome_def split: if_splits dest: service_process_Inr)
    ultimately show ?thesis
      using ok [of res] p Inr by (simp add: m_def)
  qed
qed

lemma service_validate_not_Missing:
  "service_validateSettlementData d = None \<Longrightarrow>
     obj_get service_settlement_methods (str_of (settlement_method d)) \<noteq> Missing"
  by (auto simp: service_validateSettlementData_def split: option.splits lookup.splits)

lemma service_calculateFees_Inr:
  "obj_get service_settlement_methods m \<noteq> Missing \<Longrightarrow> \<exists>fc. service_calculateFees fe a m = Inr fc"
  by (simp add: service_calculateFees_def Let_def)

lemma service_executeSettlement_cases:
  obtains (invalid) err where "service_validateSettlementData d = Some err"
      "service_executeSettlement e env d = (Inl (ExecutionFailed err), e)"
  | (settled) res rec where "service_validateSettlementData d = None"
      "ss_settlement_method rec
         \<in> {''inr_upi'', ''inr_neft'', ''binr_transfer'', ''bgt_transfer'', ''mixed_settlement''}"
      "ss_settlement_method rec = str_of (settlement_method d)"
      "fst (service_executeSettlement e env d) = Inr res"
      "sr_status res = Completed"
      "ss_status rec = Completed"
      "snd (service_executeSettlement e env d) =
         e\<lparr>sv_objects := (sv_objects e)(sv_next_ref e \<mapsto> rec),
           sv_next_ref := Suc (sv_next_ref e),
           sv_settlements := AList.update (sv_uuid env) (sv_next_ref e) (sv_settlements e)\<rparr>"
  | (failed) err rec where "service_validateSettlementData d = None"
      "merchant_account_details d = AcctAbsent
         \<or> str_of (settlement_method d)
             \<notin> {''inr_upi'', ''inr_neft'', ''binr_transfer'', ''bgt_transfer'',
                 ''mixed_settlement''}"
      "fst (service_executeSettlement e env d) = Inl (ExecutionFailed err)"
      "ss_status rec = Failed" "ss_error_message rec = Some err"
      "snd (service_executeSettlement e env d) =
         e\<lparr>sv_objects := (sv_objects e)(sv_next_ref e \<mapsto> rec),
           sv_next_ref := Suc (sv_next_ref e),
           sv_settlements := AList.update (sv_uuid env) (sv_next_ref e) (sv_settlements e)\<rparr>"
proof (cases "service_validateSettlementData d")
  case (Some err)
  then have "service_executeSettlement e env d = (Inl (ExecutionFailed err), e)"
    by (simp add: service_executeSettlement_def)
  with Some show ?thesis
    using invalid by blast
next
  case None
  obtain fc where fc: "service_calculateFees (sv_rounding env) (num_of (req_amount d))
      (str_of (settlement_method d)) = Inr fc"
    using service_calculateFees_Inr [OF service_validate_not_Missing [OF None]] by blast
  define s where "s = new_service_settlement env d fc"
  define r where "r = sv_next_ref e"
  define e1 where "e1 = e\<lparr>sv_objects := (sv_objects e)(r \<mapsto> s), sv_next_ref := Suc r,
                 sv_settlements := AList.update (sv_uuid env) r (sv_settlements e)\<rparr>"
  have ex: "service_executeSettlement e env d =
      (case service_processSettlement e1 env r s of
         (Inl error, e2) \<Rightarrow> (Inl (ExecutionFailed error), e2)
       | (Inr result, e2) \<Rightarrow>
           (Inr \<lparr>sr_settlement_id = sv_uuid env, sr_status = sp_status result,
                 sr_estimated_completion = sp_estimated_completion result,
                 sr_fees = ss_fees (s\<lparr>ss_status := sp_status result,
                          ss_updated_at := sv_now_updated env,
                          ss_transaction_details := Some (sp_transaction_details result)\<rparr>),
                 sr_net_amount = ss_net_amount (s\<lparr>ss_status := sp_status result,
                          ss_updated_at := sv_now_updated env,
                          ss_transaction_details := Some (sp_transaction_details result)\<rparr>),
                 sr_settlement_method = str_of (settlement_method d),
                 sr_timestamp = sv_now_returned env\<rparr>,
            e2\<lparr>sv_objects := (sv_objects e2)
                 (r \<mapsto> s\<lparr>ss_status := sp_status result,
                          ss_updated_at := sv_now_updated env,
                          ss_transaction_details := Some (sp_transaction_details result)\<rparr>),
               sv_settlements := AList.update (sv_uuid env) r (sv_settlements e2)\<rparr>))"
    unfolding service_executeSettlement_def Let_def s_def e1_def r_def
    using None fc by simp
  show ?thesis
  proof (cases rule: service_processSettlement_cases [of s e1 env r])
    case (ok res)
    let ?rec = "s\<lparr>ss_status := sp_status res, ss_updated_at := sv_now_updated env,
                  ss_transaction_details := Some (sp_transaction_details res)\<rparr>"
    show ?thesis
    proof (rule settled [OF None, of ?rec])
      show "ss_settlement_method ?rec
         \<in> {''inr_upi'', ''inr_neft'', ''binr_transfer'', ''bgt_transfer'', ''mixed_settlement''}"
        using ok(1) by simp
      show "ss_settlement_method ?rec = str_of (settlement_method d)"
        by (simp add: s_def)
      show "fst (service_executeSettlement e env d) =
           Inr \<lparr>sr_settlement_id = sv_uuid env, sr_status = sp_status res,
                 sr_estimated_completion = sp_estimated_completion res,
                 sr_fees = ss_fees s, sr_net_amount = ss_net_amount s,
                 sr_settlement_method = str_of (settlement_method d),
                 sr_timestamp = sv_now_returned env\<rparr>"
        unfolding ex ok(2) by simp
      show "sr_status \<lparr>sr_settlement_id = sv_uuid env, sr_status = sp_status res,
                 sr_estimated_completion = sp_estimated_completion res,
                 sr_fees = ss_fees s, sr_net_amount = ss_net_amount s,
                 sr_settlement_method = str_of (settlement_method d),
                 sr_timestamp = sv_now_returned env\<rparr> = Completed"
        using ok(3) by simp
      show "ss_status ?rec = Completed"
        using ok(3) by simp
      show "snd (service_executeSettlement e env d) =
         e\<lparr>sv_objects := (sv_objects e)(sv_next_ref e \<mapsto> ?rec),
           sv_next_ref := Suc (sv_next_ref e),
           sv_settlements := AList.update (sv_uuid env) (sv_next_ref e) (sv_settlements e)\<rparr>"
        unfolding ex ok(2) by (simp add: e1_def r_def)
    qed
  next
    case (failed err)
    let ?rec = "s\<lparr>ss_status := Failed, ss_error_message := Some err\<rparr>"
    show ?thesis
    proof (rule that(3) [OF None, of err ?rec])
      show "merchant_account_details d = AcctAbsent
         \<or> str_of (settlement_method d)
             \<notin> {''inr_upi'', ''inr_neft'', ''binr_transfer'', ''bgt_transfer'',
                 ''mixed_settlement''}"
        using failed(2) by (simp add: s_def)
      show "fst (service_executeSettlement e env d) = Inl (ExecutionFailed err)"
        unfolding ex failed(1) by simp
      show "ss_status ?rec = Failed" "ss_error_message ?rec = Some err"
        by simp_all
      show "snd (service_executeSettlement e env d) =
         e\<lparr>sv_objects := (sv_objects e)(sv_next_ref e \<mapsto> ?rec),
           sv_next_ref := Suc (sv_next_ref e),
           sv_settlements := AList.update (sv_uuid env) (sv_next_ref e) (sv_settlements e)\<rparr>"
        unfolding ex failed(1) by (simp add: e1_def r_def)
    qed
  qed
qed

lemma service_executeSettlement_settlements:
  "sv_settlements (snd (service_executeSettlement e env d)) =
     (if service_validateSettlementData d = None
      then AList.update (sv_uuid env) (sv_next_ref e) (sv_settlements e)
      else sv_settlements e)"
  by (cases rule: service_executeSettlement_cases [of d e env]) simp_all

lemma service_executeSettlement_stored_status:
  assumes "service_validateSettlementData d = None"
  shows "map_option ss_status
           (getSettlement (snd (service_executeSettlement e env d)) (sv_uuid env))
         = Some (if isl (fst (service_executeSettlement e env d)) then Failed else Completed)"
  using assms
  by (cases rule: service_executeSettlement_cases [of d e env])
    (simp_all add: getSettlement_def update_conv')

lemma service_executeSettlement_result_status:
  assumes "fst (service_executeSettlement e env d) = Inr res"
  shows "sr_status res = Completed"
  using assms
  by (cases rule: service_executeSettlement_cases [of d e env]) simp_all

text \<open>
  Terminal states are final: a later call, which draws another settlement id, leaves the
  record found under an earlier id as it was, in both layers.
\<close>

lemma map_of_allocated:
  "list_all (\<lambda>(k, r). r < n) xs \<Longrightarrow> map_of xs k = Some r \<Longrightarrow> r < (n :: nat)"
  by (auto simp: list_all_iff dest: map_of_SomeD)

lemma update_member:
  "x \<in> set (AList.update k v xs) \<Longrightarrow> x = (k, v) \<or> x \<in> set xs"
  by (induction xs) (auto split: if_splits)

lemma update_allocated:
  "list_all (\<lambda>(k, r). r < n) xs \<Longrightarrow>
     list_all (\<lambda>(k, r). r < Suc n) (AList.update k n xs)"
  unfolding list_all_iff
proof
  fix x
  assume a: "\<forall>x \<in> set xs. case x of (k, r) \<Rightarrow> r < n"
    and "x \<in> set (AList.update k n xs)"
  then have "x = (k, n) \<or> x \<in> set xs"
    by (intro update_member)
  then show "case x of (k, r) \<Rightarrow> r < Suc n"
  proof
    assume "x = (k, n)"
    then show ?thesis by simp
  next
    assume "x \<in> set xs"
    with a have "case x of (k, r) \<Rightarrow> r < n"
      by blast
    then show ?thesis
      by (cases x) simp
  qed
qed

lemma refs_allocated_new: "refs_allocated new_engine" "service_refs_allocated new_service_engine"
  by (simp_all add: refs_allocated_def service_refs_allocated_def new_engine_def
      new_service_engine_def)

lemma executeSettlement_refs_allocated:
  assumes "refs_allocated e"
  shows "refs_allocated (snd (executeSettlement e env d))"
  using assms
  by (cases rule: executeSettlement_cases [of d e env])
    (simp_all add: refs_allocated_def update_allocated)

lemma service_executeSettlement_refs_allocated:
  assumes "service_refs_allocated e"
  shows "service_refs_allocated (snd (service_executeSettlement e env d))"
  using assms
  by (cases rule: service_executeSettlement_cases [of d e env])
    (simp_all add: service_refs_allocated_def update_allocated)

lemma executeSettlement_final:
  assumes "refs_allocated e" and "uuid env \<noteq> sid"
  shows "settlements_get (snd (executeSettlement e env d)) sid = settlements_get e sid"
proof -
  have n: "map_of (settlements e) sid = Some r \<Longrightarrow> r \<noteq> next_ref e" for r
    using map_of_allocated [of "next_ref e" "settlements e" sid r] assms(1)
    by (auto simp: refs_allocated_def)
  show ?thesis
    using assms(2) n
    by (cases rule: executeSettlement_cases [of d e env])
      (auto simp: settlements_get_def update_conv' split: option.splits)
qed

lemma service_executeSettlement_final:
  assumes "service_refs_allocated e" and "sv_uuid env \<noteq> sid"
  shows "getSettlement (snd (service_executeSettlement e env d)) sid = getSettlement e sid"
proof -
  have n: "map_of (sv_settlements e) sid = Some r \<Longrightarrow> r \<noteq> sv_next_ref e" for r
    using map_of_allocated [of "sv_next_ref e" "sv_settlements e" sid r] assms(1)
    by (auto simp: service_refs_allocated_def)
  show ?thesis
    using assms(2) n
    by (cases rule: service_executeSettlement_cases [of d e env])
      (auto simp: getSettlement_def update_conv' split: option.splits)
qed

lemma settlement_methods_Own:
  assumes "obj_get settlement_methods m = Own c"
  shows "m \<in> {''inr_upi'', ''inr_neft'', ''binr_transfer'', ''bgt_transfer''}
         \<and> 0 < minimum_amount c"
  using assms
  by (auto simp: obj_get_def settlement_methods_def split: if_splits option.splits)

lemma service_settlement_methods_Own:
  assumes "obj_get service_settlement_methods m = Own c"
  shows "m \<in> {''inr_upi'', ''inr_neft'', ''binr_transfer'', ''bgt_transfer'',
               ''mixed_settlement''}
         \<and> 0 < sm_minimum_amount c"
  using assms
  by (auto simp: obj_get_def service_settlement_methods_def split: if_splits option.splits)

lemma validateSettlementData_Own:
  assumes "payment_id d = Some p" "p \<noteq> []" "merchant_id d = Some mid" "mid \<noteq> []"
    "currency d = Some c" "c \<noteq> []" "settlement_method d = Some m" "req_amount d = Some a"
    "merchant_account_details d = AcctTruthy acct" "obj_get settlement_methods m = Own cfg"
  shows "validateSettlementData d = None
           \<longleftrightarrow> \<not> (a < minimum_amount cfg \<or> a > maximum_amount cfg)"
proof -
  from settlement_methods_Own [OF assms(10)]
  have m: "m \<noteq> []" and pos: "0 < minimum_amount cfg"
    by auto
  show ?thesis
    using assms m pos
    by (auto simp: validateSettlementData_def missing_str_def missing_num_def str_of_def
        num_of_def)
qed

lemma executeSettlement_Own:
  assumes "payment_id d = Some p" "p \<noteq> []" "merchant_id d = Some mid" "mid \<noteq> []"
    "currency d = Some c" "c \<noteq> []" "settlement_method d = Some m" "req_amount d = Some a"
    "merchant_account_details d = AcctTruthy acct" "obj_get settlement_methods m = Own cfg"
  shows "(isl (fst (executeSettlement e env d))
            \<longleftrightarrow> a < minimum_amount cfg \<or> a > maximum_amount cfg)
     \<and> (a < minimum_amount cfg \<or> a > maximum_amount cfg
            \<longrightarrow> snd (executeSettlement e env d) = e)"
proof (cases rule: executeSettlement_cases [of d e env])
  case (invalid err)
  then have "a < minimum_amount cfg \<or> a > maximum_amount cfg"
    using validateSettlementData_Own [OF assms] by auto
  then show ?thesis
    using invalid by simp
next
  case (settled res s)
  then have "\<not> (a < minimum_amount cfg \<or> a > maximum_amount cfg)"
    using validateSettlementData_Own [OF assms] by simp
  then show ?thesis
    using settled(4) by simp
next
  case (failed err s)
  from settlement_methods_Own [OF assms(10)]
  have "m \<in> {''inr_upi'', ''inr_neft'', ''binr_transfer'', ''bgt_transfer''}"
    by simp
  then show ?thesis
    using failed(3) assms(7,9) by (simp add: str_of_def)
qed

lemma service_validateSettlementData_Own:
  assumes "payment_id d = Some p" "p \<noteq> []" "merchant_id d = Some mid" "mid \<noteq> []"
    "currency d = Some c" "c \<in> set supported_currencies" "settlement_method d = Some m"
    "req_amount d = Some a" "obj_get service_settlement_methods m = Own cfg"
  shows "service_validateSettlementData d = None
           \<longleftrightarrow> \<not> (a < sm_minimum_amount cfg \<or> a > sm_maximum_amount cfg)"
proof -
  from service_settlement_methods_Own [OF assms(9)]
  have m: "m \<noteq> []" and pos: "0 < sm_minimum_amount cfg"
    by auto
  have c: "c \<noteq> []"
    using assms(6) by (auto simp: supported_currencies_def)
  show ?thesis
    using assms m pos c
    by (auto simp: service_validateSettlementData_def missing_str_def missing_num_def
        str_of_def num_of_def)
qed

lemma service_executeSettlement_Own:
  assumes "payment_id d = Some p" "p \<noteq> []" "merchant_id d = Some mid" "mid \<noteq> []"
    "currency d = Some c" "c \<in> set supported_currencies" "settlement_method d = Some m"
    "req_amount d = Some a" "obj_get service_settlement_methods m = Own cfg"
    and acct: "merchant_account_details d = AcctTruthy acct"
  shows "(isl (fst (service_executeSettlement e env d))
            \<longleftrightarrow> a < sm_minimum_amount cfg \<or> a > sm_maximum_amount cfg)
     \<and> (a < sm_minimum_amount cfg \<or> a > sm_maximum_amount cfg
            \<longrightarrow> snd (service_executeSettlement e env d) = e)"
proof (cases rule: service_executeSettlement_cases [of d e env])
  case (invalid err)
  then have "a < sm_minimum_amount cfg \<or> a > sm_maximum_amount cfg"
    using service_validateSettlementData_Own [OF assms(1-9)] by auto
  then show ?thesis
    using invalid by simp
next
  case (settled res rec)
  then have "\<not> (a < sm_minimum_amount cfg \<or> a > sm_maximum_amount cfg)"
    using service_validateSettlementData_Own [OF assms(1-9)] by simp
  then show ?thesis
    using settled(4) by simp
next
  case (failed err rec)
  from service_settlement_methods_Own [OF assms(9)]
  have "m \<in> {''inr_upi'', ''inr_neft'', ''binr_transfer'', ''bgt_transfer'',
               ''mixed_settlement''}"
    by simp
  then show ?thesis
    using failed(2) assms(7) acct by (simp add: str_of_def)
qed

lemma executeSettlements_length:
  "\<forall>x \<in> set calls. validateSettlementData (snd x) = None \<Longrightarrow>
   distinct (map (\<lambda>x. uuid (fst x)) calls) \<Longrightarrow>
   \<forall>x \<in> set calls. uuid (fst x) \<notin> set (map fst (settlements e)) \<Longrightarrow>
   length (settlements (executeSettlements e calls)) = length (settlements e) + length calls"
proof (induction calls arbitrary: e)
  case Nil
  then show ?case by simp
next
  case (Cons c calls)
  obtain env d where c: "c = (env, d)"
    by (cases c)
  let ?e = "snd (executeSettlement e env d)"
  have keys: "map fst (settlements ?e) = map fst (settlements e) @ [uuid env]"
    using Cons.prems c by (simp add: executeSettlement_settlements update_keys)
  have "length (settlements (executeSettlements ?e calls))
          = length (settlements ?e) + length calls"
  proof (rule Cons.IH)
    show "\<forall>x\<in>set calls. validateSettlementData (snd x) = None"
      using Cons.prems by simp
    show "distinct (map (\<lambda>x. uuid (fst x)) calls)"
      using Cons.prems by simp
    show "\<forall>x\<in>set calls. uuid (fst x) \<notin> set (map fst (settlements ?e))"
    proof
      fix x
      assume x: "x \<in> set calls"
      then have mem: "uuid (fst x) \<in> (\<lambda>x. uuid (fst x)) ` set calls"
        by (rule imageI)
      have "uuid env \<notin> (\<lambda>x. uuid (fst x)) ` set calls"
        using Cons.prems(2) c by simp
      with mem have "uuid (fst x) \<noteq> uuid env"
        by metis
      moreover have "uuid (fst x) \<notin> set (map fst (settlements e))"
        using Cons.prems(3) x by simp
      ultimately show "uuid (fst x) \<notin> set (map fst (settlements ?e))"
        unfolding keys by simp
    qed
  qed
  moreover have "length (settlements ?e) = Suc (length (settlements e))"
    using arg_cong [OF keys, of length] by simp
  ultimately show ?case
    using c by simp
qed

lemma service_executeSettlements_length:
  "\<forall>x \<in> set calls. service_validateSettlementData (snd x) = None \<Longrightarrow>
   distinct (map (\<lambda>x. sv_uuid (fst x)) calls) \<Longrightarrow>
   \<forall>x \<in> set calls. sv_uuid (fst x) \<notin> set (map fst (sv_settlements e)) \<Longrightarrow>
   length (sv_settlements (service_executeSettlements e calls))
     = length (sv_settlements e) + length calls"
proof (induction calls arbitrary: e)
  case Nil
  then show ?case by simp
next
  case (Cons c calls)
  obtain env d where c: "c = (env, d)"
    by (cases c)
  let ?e = "snd (service_executeSettlement e env d)"
  have keys: "map fst (sv_settlements ?e) = map fst (sv_settlements e) @ [sv_uuid env]"
    using Cons.prems c by (simp add: service_executeSettlement_settlements update_keys)
  have "length (sv_settlements (service_executeSettlements ?e calls))
          = length (sv_settlements ?e) + length calls"
  proof (rule Cons.IH)
    show "\<forall>x\<in>set calls. service_validateSettlementData (snd x) = None"
      using Cons.prems by simp
    show "distinct (map (\<lambda>x. sv_uuid (fst x)) calls)"
      using Cons.prems by simp
    show "\<forall>x\<in>set calls. sv_uuid (fst x) \<notin> set (map fst (sv_settlements ?e))"
    proof
      fix x
      assume x: "x \<in> set calls"
      then have mem: "sv_uuid (fst x) \<in> (\<lambda>x. sv_uuid (fst x)) ` set calls"
        by (rule imageI)
      have "sv_uuid env \<notin> (\<lambda>x. sv_uuid (fst x)) ` set calls"
        using Cons.prems(2) c by simp
      with mem have "sv_uuid (fst x) \<noteq> sv_uuid env"
        by metis
      moreover have "sv_uuid (fst x) \<notin> set (map fst (sv_settlements e))"
        using Cons.prems(3) x by simp
      ultimately show "sv_uuid (fst x) \<notin> set (map fst (sv_settlements ?e))"
        unfolding keys by simp
    qed
  qed
  moreover have "length (sv_settlements ?e) = Suc (length (sv_settlements e))"
    using arg_cong [OF keys, of length] by simp
  ultimately show ?case
    using c by simp
qed

lemma sample_request_valid: "validateSettlementData sample_request = None"
  by (simp add: validateSettlementData_def sample_request_def missing_str_def missing_num_def
      str_of_def num_of_def obj_get_def settlement_methods_def)

lemma sample_request_service_valid: "service_validateSettlementData sample_request = None"
  by (simp add: service_validateSettlementData_def sample_request_def missing_str_def
      missing_num_def str_of_def num_of_def obj_get_def service_settlement_methods_def
      supported_currencies_def)

lemma distinct_sample_calls: "distinct (map (\<lambda>x. uuid (fst x)) (sample_calls n))"
proof -
  have "inj_on (\<lambda>k. uuid (fst (sample_env k, sample_request))) {0..<n}"
    by (rule inj_onI) (simp add: sample_env_def sample_uuid_inj)
  then show ?thesis
    by (simp add: sample_calls_def distinct_map comp_def)
qed

lemma distinct_sample_service_calls:
  "distinct (map (\<lambda>x. sv_uuid (fst x)) (sample_service_calls n))"
proof -
  have "inj_on (\<lambda>k. sv_uuid (fst (sample_service_env k, sample_request))) {0..<n}"
    by (rule inj_onI) (simp add: sample_service_env_def sample_uuid_inj)
  then show ?thesis
    by (simp add: sample_service_calls_def distinct_map comp_def)
qed

lemma sample_calls_length:
  "length (settlements (executeSettlements new_engine (sample_calls n))) = n"
proof -
  have "length (settlements (executeSettlements new_engine (sample_calls n))) =
          length (settlements new_engine) + length (sample_calls n)"
  proof (rule executeSettlements_length)
    show "\<forall>x\<in>set (sample_calls n). validateSettlementData (snd x) = None"
      by (auto simp: sample_calls_def sample_request_valid)
    show "distinct (map (\<lambda>x. uuid (fst x)) (sample_calls n))"
      by (rule distinct_sample_calls)
    show "\<forall>x\<in>set (sample_calls n). uuid (fst x) \<notin> set (map fst (settlements new_engine))"
      by (simp add: new_engine_def)
  qed
  then show ?thesis
    by (simp add: new_engine_def sample_calls_def)
qed

lemma sample_service_calls_length:
  "length (sv_settlements (service_executeSettlements new_service_engine
     (sample_service_calls n))) = n"
proof -
  have "length (sv_settlements (service_executeSettlements new_service_engine
          (sample_service_calls n))) =
          length (sv_settlements new_service_engine) + length (sample_service_calls n)"
  proof (rule service_executeSettlements_length)
    show "\<forall>x\<in>set (sample_service_calls n). service_validateSettlementData (snd x) = None"
      by (auto simp: sample_service_calls_def sample_request_service_valid)
    show "distinct (map (\<lambda>x. sv_uuid (fst x)) (sample_service_calls n))"
      by (rule distinct_sample_service_calls)
    show "\<forall>x\<in>set (sample_service_calls n).
            sv_uuid (fst x) \<notin> set (map fst (sv_settlements new_service_engine))"
      by (simp add: new_service_engine_def)
  qed
  then show ?thesis
    by (simp add: new_service_engine_def sample_service_calls_def)
qed

subsection \<open>Facts about prices and conversion\<close>

lemma getPrice_Inr: "\<exists>q c. getPrice cache env a = (Inr q, c)"
  by (auto simp: getPrice_def split: option.splits sum.splits)

lemma convert_cases:
  obtains (rejected) err where "validateConversion f t = Some err"
      "convert e env f t amt opts = (Inl (ConversionFailed err), e)"
  | (converted) q1 c1 q2 c2 where "validateConversion f t = None"
      "getPrice (price_cache e) (from_env env) f = (Inr q1, c1)"
      "getPrice c1 (to_env env) t = (Inr q2, c2)"
      "convert e env f t amt opts =
         (Inr (calculateConversion env q1 q2 amt opts),
          e\<lparr>price_cache := c2,
            conversion_history := storeConversionHistory (conversion_history e) env f t amt
              (calculateConversion env q1 q2 amt opts)\<rparr>)"
proof (cases "validateConversion f t")
  case None
  obtain q1 c1 where 1: "getPrice (price_cache e) (from_env env) f = (Inr q1, c1)"
    using getPrice_Inr by blast
  obtain q2 c2 where 2: "getPrice c1 (to_env env) t = (Inr q2, c2)"
    using getPrice_Inr by blast
  show ?thesis
    by (rule converted [OF None 1 2]) (simp add: convert_def None 1 2 Let_def)
next
  case (Some err)
  show ?thesis
    by (rule rejected [OF Some]) (simp add: convert_def Some)
qed

lemma calculateConversion_fields:
  "conversion_fee (conv_fees (calculateConversion env q1 q2 amt opts))
     = amt * conversion_fee_rate opts
   \<and> leg_amount (to_asset (calculateConversion env q1 q2 amt opts)) =
      jsub (jmul (Num amt) (conversion_rate (calculateConversion env q1 q2 amt opts)))
           (Num (amt * conversion_fee_rate opts))
   \<and> cf_total_fee (conv_fees (calculateConversion env q1 q2 amt opts)) =
      jadd (Num (amt * conversion_fee_rate opts))
        (slippage (conv_fees (calculateConversion env q1 q2 amt opts)))"
  by (simp add: calculateConversion_def Let_def split: prod.splits)

lemma convert_fields:
  assumes "fst (convert e env f t amt opts) = Inr conv"
  shows "conversion_fee (conv_fees conv) = amt * conversion_fee_rate opts
   \<and> leg_amount (to_asset conv) =
      jsub (jmul (Num amt) (conversion_rate conv)) (Num (conversion_fee (conv_fees conv)))
   \<and> cf_total_fee (conv_fees conv) =
      jadd (Num (conversion_fee (conv_fees conv))) (slippage (conv_fees conv))"
proof (cases rule: convert_cases [of f t e env amt opts])
  case (rejected err)
  then show ?thesis
    using assms by simp
next
  case (converted q1 c1 q2 c2)
  then have "conv = calculateConversion env q1 q2 amt opts"
    using assms by simp
  then show ?thesis
    using calculateConversion_fields [of env q1 q2 amt opts] by simp
qed

lemmas sample_conversion_defs =
  convert_def validateConversion_def supported_assets_def getPrice_def
  fetchPriceFromSource_def getCachedPrice_def getFallbackPrice_def cache_key_def
  number_or_default_def text_or_default_def getVolatilityLevel_def getPriceSource_def
  obj_get_def base_prices_def calculateConversion_def applySlippageProtection_def
  volatility_multiplier_def volatility_multipliers_def slippage_protection_def max_slippage_def
  conversion_fee_rate_def jsub_def Let_def storeConversionHistory_def
  new_conversion_engine_def sample_convert_env_def sample_price_env_def default_options_def
  object_prototype_names_def

lemma update_length:
  "length (AList.update k v al) = (if k \<in> fst ` set al then length al else Suc (length al))"
  by (induction al) auto

lemma update_absent: "k \<notin> fst ` set al \<Longrightarrow> AList.update k v al = al @ [(k, v)]"
  by (induction al) auto

lemma delete_length_Cons: "length (AList.delete k ((k, v) # al)) \<le> length al"
  by (simp add: AList.delete_eq)

lemma storeConversionHistory_bounded:
  assumes "length h \<le> 10000"
  shows "length (storeConversionHistory h env f t amt c) \<le> 10000"
proof -
  let ?h = "AList.update (history_key (now_key env))
                \<lparr>he_from_asset = f, he_to_asset = t, he_amount = amt,
                 he_conversion = c, he_timestamp = now_stored env\<rparr> h"
  have le: "length ?h \<le> 10001"
    using assms by (simp add: update_length)
  show ?thesis
  proof (cases "length ?h > 10000")
    case True
    then obtain k v rest where h: "?h = (k, v) # rest"
      by (cases ?h) auto
    have "length (AList.delete k ?h) \<le> length rest"
      unfolding h by (rule delete_length_Cons)
    also have "\<dots> \<le> 10000"
      using le h by simp
    finally show ?thesis
      using True h by (simp add: storeConversionHistory_def Let_def)
  next
    case False
    then show ?thesis
      by (simp add: storeConversionHistory_def Let_def)
  qed
qed

lemma storeConversionHistory_keeps_key:
  assumes "length h \<le> 10000"
  shows "history_key (now_key env) \<in> fst ` set (storeConversionHistory h env f t amt c)"
proof -
  let ?k = "history_key (now_key env)"
  let ?v = "\<lparr>he_from_asset = f, he_to_asset = t, he_amount = amt,
                 he_conversion = c, he_timestamp = now_stored env\<rparr>"
  let ?h = "AList.update ?k ?v h"
  have mem: "?k \<in> fst ` set ?h"
    by (simp add: dom_update)
  show ?thesis
  proof (cases "length ?h > 10000")
    case True
    then have absent: "?k \<notin> fst ` set h"
      using assms by (auto simp: update_length split: if_splits)
    then have app: "?h = h @ [(?k, ?v)]"
      by (rule update_absent)
    from True assms app have "h \<noteq> []"
      by auto
    then obtain k0 v0 rest where h: "h = (k0, v0) # rest"
      by (cases h) auto
    have ne: "k0 \<noteq> ?k"
      using absent h by auto
    have "storeConversionHistory h env f t amt c = AList.delete k0 ?h"
      using True unfolding storeConversionHistory_def Let_def app h by simp
    moreover have "?k \<in> fst ` set (AList.delete k0 ?h)"
      using ne unfolding app by (auto simp: AList.delete_eq image_iff)
    ultimately show ?thesis
      by simp
  next
    case False
    then show ?thesis
      using mem by (simp add: storeConversionHistory_def Let_def)
  qed
qed

lemma storeConversionHistory_overwrites:
  assumes "length h \<le> 10000" "history_key (now_key env) \<in> fst ` set h"
  shows "storeConversionHistory h env f t amt c =
     AList.update (history_key (now_key env))
                \<lparr>he_from_asset = f, he_to_asset = t, he_amount = amt,
                 he_conversion = c, he_timestamp = now_stored env\<rparr> h"
  using assms by (simp add: storeConversionHistory_def Let_def update_length)

lemma storeConversionHistory_twice:
  assumes "length h \<le> 10000" "now_key env2 = now_key env1"
  shows "length (storeConversionHistory (storeConversionHistory h env1 f1 t1 a1 c1)
            env2 f2 t2 a2 c2)
          = length (storeConversionHistory h env1 f1 t1 a1 c1)
    \<and> map_of (storeConversionHistory (storeConversionHistory h env1 f1 t1 a1 c1)
            env2 f2 t2 a2 c2) (history_key (now_key env1))
       = Some \<lparr>he_from_asset = f2, he_to_asset = t2, he_amount = a2,
                 he_conversion = c2, he_timestamp = now_stored env2\<rparr>"
proof -
  let ?h1 = "storeConversionHistory h env1 f1 t1 a1 c1"
  have b: "length ?h1 \<le> 10000"
    using assms(1) by (rule storeConversionHistory_bounded)
  have k: "history_key (now_key env2) \<in> fst ` set ?h1"
    unfolding assms(2) using assms(1) by (rule storeConversionHistory_keeps_key)
  show ?thesis
    unfolding storeConversionHistory_overwrites [OF b k]
    using k by (simp add: update_length assms(2) update_conv')
qed

lemma getConversionHistory_count:
  "snd (getConversionHistory e n) = min n (length (conversion_history e))"
  by (simp add: getConversionHistory_def Let_def min.commute)

lemma convert_unsupported_asset:
  "f \<notin> set supported_assets \<or> t \<notin> set supported_assets \<Longrightarrow>
    isl (fst (convert e env f t amt opts)) \<and> snd (convert e env f t amt opts) = e"
  by (auto simp: convert_def validateConversion_def)

lemma obj_get_Missing:
  "k \<notin> fst ` set tbl \<Longrightarrow> k \<notin> set object_prototype_names \<Longrightarrow> obj_get tbl k = Missing"
proof -
  assume "k \<notin> fst ` set tbl" and p: "k \<notin> set object_prototype_names"
  then have "map_of tbl k = None"
    by (simp add: map_of_eq_None_iff)
  with p show ?thesis
    by (simp add: obj_get_def)
qed

lemma validateSettlementData_Missing:
  assumes "obj_get settlement_methods (str_of (settlement_method d)) = Missing"
  shows "\<exists>err. validateSettlementData d = Some err
    \<and> (err = UnsupportedMethod (str_of (settlement_method d)) \<or> (\<exists>field. err = MissingField field))"
  using assms by (auto simp: validateSettlementData_def split: option.splits)

lemma service_validateSettlementData_Missing:
  assumes "obj_get service_settlement_methods (str_of (settlement_method d)) = Missing"
  shows "\<exists>err. service_validateSettlementData d = Some err
    \<and> (err = InvalidMethod (str_of (settlement_method d)) \<or> (\<exists>field. err = MissingField field))"
  using assms by (auto simp: service_validateSettlementData_def split: option.splits)

lemma service_executeSettlement_invalid:
  "service_validateSettlementData d = Some err \<Longrightarrow>
     service_executeSettlement e env d = (Inl (ExecutionFailed err), e)"
  by (simp add: service_executeSettlement_def)

lemma obj_get_not_key: "k \<notin> fst ` set tbl \<Longrightarrow> obj_get tbl k \<noteq> Own v"
proof -
  assume "k \<notin> fst ` set tbl"
  then have "map_of tbl k = None"
    by (simp add: map_of_eq_None_iff)
  then show ?thesis
    by (simp add: obj_get_def)
qed

lemma settlement_method_names:
  "fst ` set settlement_methods =
     {''inr_upi'', ''inr_neft'', ''binr_transfer'', ''bgt_transfer''}"
  by (auto simp: settlement_methods_def)

lemma service_settlement_method_names:
  "fst ` set service_settlement_methods =
     {''inr_upi'', ''inr_neft'', ''binr_transfer'', ''bgt_transfer'', ''mixed_settlement''}"
  by (auto simp: service_settlement_methods_def)

lemma executeSettlement_unsupported_method:
  assumes "str_of (settlement_method d) \<notin> fst ` set settlement_methods"
  shows "isl (fst (executeSettlement e env d))"
proof (cases rule: executeSettlement_cases [of d e env])
  case (invalid err)
  then show ?thesis by simp
next
  case (settled res s)
  then show ?thesis
    using assms unfolding settlement_method_names by simp
next
  case (failed err s)
  then show ?thesis by simp
qed

lemma service_executeSettlement_unsupported_method:
  assumes "str_of (settlement_method d) \<notin> fst ` set service_settlement_methods"
  shows "isl (fst (service_executeSettlement e env d))"
proof (cases rule: service_executeSettlement_cases [of d e env])
  case (invalid err)
  then show ?thesis by simp
next
  case (settled res rec)
  then show ?thesis
    using assms unfolding service_settlement_method_names by simp
next
  case (failed err rec)
  then show ?thesis by simp
qed

lemma getPrice_unsupported_asset:
  assumes "a \<notin> set supported_assets" "a \<notin> set object_prototype_names"
    "map_of cache (cache_key a) = None"
  shows "fst (getPrice cache env a) =
     Inr \<lparr>asset_type = a, price = N (Num (100 * (1 + (random env - 1 / 2) * (2 / 1000)))),
          pd_currency = ''INR'', source = Own ''UTP Internal'',
          timestamp = Iso (now_fetched env), volatility = Own ''medium'',
          confidence = 95 / 100\<rparr>"
proof -
  have a: "a \<noteq> ''bgt''" "a \<noteq> ''bst''" "a \<noteq> ''bpt''" "a \<noteq> ''binr''" "a \<noteq> ''rwa''"
    using assms(1) by (auto simp: supported_assets_def)
  show ?thesis
    using assms(2,3) a
    by (simp add: getPrice_def fetchPriceFromSource_def number_or_default_def
        text_or_default_def getVolatilityLevel_def getPriceSource_def obj_get_def
        base_prices_def Let_def)
qed




subsection \<open>Settlement fees\<close>




subsection \<open>Settlement validation and the store\<close>

text \<open>
  C5. Take a settlement request whose other fields are valid (non-empty payment id,
  merchant id and currency, account details present) and whose method \<open>m\<close> is in the
  layer's method table. Then \<^verbatim>\<open>executeSettlement\<close> raises an error if and only if the
  amount is below \<open>m\<close>'s minimum or above its maximum, so an amount equal to either
  bound succeeds; and when it raises, the engine's state (the map and every record) is
  what it was before the call. This holds in the route layer and, for a supported
  currency, in the service layer.
\<close>

theorem executeSettlement_amount_range:
  assumes "payment_id d = Some p" and "p \<noteq> []"
    and "merchant_id d = Some mid" and "mid \<noteq> []"
    and "currency d = Some c"
    and "settlement_method d = Some m"
    and "req_amount d = Some a"
    and "merchant_account_details d = AcctTruthy acct"
  shows "(c \<noteq> [] \<and> obj_get settlement_methods m = Own cfg \<longrightarrow>
           (isl (fst (executeSettlement e env d))
              \<longleftrightarrow> a < minimum_amount cfg \<or> a > maximum_amount cfg)
           \<and> (a < minimum_amount cfg \<or> a > maximum_amount cfg
                \<longrightarrow> snd (executeSettlement e env d) = e))
       \<and> (c \<in> set supported_currencies \<and> obj_get service_settlement_methods m = Own scfg \<longrightarrow>
           (isl (fst (service_executeSettlement se senv d))
              \<longleftrightarrow> a < sm_minimum_amount scfg \<or> a > sm_maximum_amount scfg)
           \<and> (a < sm_minimum_amount scfg \<or> a > sm_maximum_amount scfg
                \<longrightarrow> snd (service_executeSettlement se senv d) = se))"
proof (intro conjI impI)
  assume h: "c \<noteq> [] \<and> obj_get settlement_methods m = Own cfg"
  note r = executeSettlement_Own [OF assms(1-5) conjunct1 [OF h] assms(6-8) conjunct2 [OF h],
      of e env]
  from r show "isl (fst (executeSettlement e env d))
      \<longleftrightarrow> a < minimum_amount cfg \<or> a > maximum_amount cfg"
    by (rule conjunct1)
  assume "a < minimum_amount cfg \<or> a > maximum_amount cfg"
  with r show "snd (executeSettlement e env d) = e"
    by simp
next
  assume h: "c \<in> set supported_currencies \<and> obj_get service_settlement_methods m = Own scfg"
  note r = service_executeSettlement_Own [OF assms(1-5) conjunct1 [OF h] assms(6,7)
      conjunct2 [OF h] assms(8), of se senv]
  from r show "isl (fst (service_executeSettlement se senv d))
      \<longleftrightarrow> a < sm_minimum_amount scfg \<or> a > sm_maximum_amount scfg"
    by (rule conjunct1)
  assume "a < sm_minimum_amount scfg \<or> a > sm_maximum_amount scfg"
  with r show "snd (service_executeSettlement se senv d) = se"
    by simp
qed

text \<open>
  The witness takes the sample request at the two bounds of \<open>inr_upi\<close> in the route layer:
  the maximum 100000 is accepted, and 100001 is rejected with the engine unchanged.
\<close>

theorem executeSettlement_amount_range_witness:
  "\<not> isl (fst (executeSettlement new_engine (sample_env 0)
        (sample_request\<lparr>req_amount := Some 100000\<rparr>)))
   \<and> \<not> isl (fst (service_executeSettlement new_service_engine (sample_service_env 0)
        (sample_request\<lparr>req_amount := Some 100000\<rparr>)))
   \<and> isl (fst (executeSettlement new_engine (sample_env 0)
        (sample_request\<lparr>req_amount := Some 100001\<rparr>)))
   \<and> snd (executeSettlement new_engine (sample_env 0)
        (sample_request\<lparr>req_amount := Some 100001\<rparr>)) = new_engine"
proof -
  have r: "obj_get settlement_methods ''inr_upi'' =
     Own \<lparr>name = ''UPI Transfer'', settlement_time = ''< 2 seconds'', fee = 1 / 1000,
          minimum_amount = 1, maximum_amount = 100000\<rparr>"
    by (simp add: obj_get_def settlement_methods_def)
  have s: "obj_get service_settlement_methods ''inr_upi'' =
     Own \<lparr>sm_name = ''UPI Transfer'', sm_type = ''fiat'', sm_settlement_time = ''< 2 seconds'',
          fee_rate = 1 / 1000, sm_minimum_amount = 10, sm_maximum_amount = 100000,
          sm_currency = ''INR''\<rparr>"
    by (simp add: obj_get_def service_settlement_methods_def)
  have c: "''INR'' \<in> set supported_currencies"
    by (simp add: supported_currencies_def)
  show ?thesis
    using r s c
      executeSettlement_amount_range [of "sample_request\<lparr>req_amount := Some 100000\<rparr>"
        "''pay_1''" "''merchant_1''" "''INR''" "''inr_upi''" 100000 sample_account
        "\<lparr>name = ''UPI Transfer'', settlement_time = ''< 2 seconds'', fee = 1 / 1000,
          minimum_amount = 1, maximum_amount = 100000\<rparr>" new_engine "sample_env 0"
        "\<lparr>sm_name = ''UPI Transfer'', sm_type = ''fiat'', sm_settlement_time = ''< 2 seconds'',
          fee_rate = 1 / 1000, sm_minimum_amount = 10, sm_maximum_amount = 100000,
          sm_currency = ''INR''\<rparr>" new_service_engine "sample_service_env 0"]
      executeSettlement_amount_range [of "sample_request\<lparr>req_amount := Some 100001\<rparr>"
        "''pay_1''" "''merchant_1''" "''INR''" "''inr_upi''" 100001 sample_account
        "\<lparr>name = ''UPI Transfer'', settlement_time = ''< 2 seconds'', fee = 1 / 1000,
          minimum_amount = 1, maximum_amount = 100000\<rparr>" new_engine "sample_env 0"
        "\<lparr>sm_name = ''UPI Transfer'', sm_type = ''fiat'', sm_settlement_time = ''< 2 seconds'',
          fee_rate = 1 / 1000, sm_minimum_amount = 10, sm_maximum_amount = 100000,
          sm_currency = ''INR''\<rparr>" new_service_engine "sample_service_env 0"]
    by (simp add: sample_request_def)
qed

text \<open>
  C6. The claim holds of the service layer and fails in the route layer, whose
  \<^verbatim>\<open>executeSettlement\<close> stores the record with status \<open>pending\<close> and, after the dispatcher
  has returned, does not write the result's status into it. For the sample \<open>inr_upi\<close>
  request on a fresh engine the route layer's call returns status \<open>completed\<close> and the
  record found under the settlement id afterwards still has status \<open>pending\<close>. The service
  layer leaves the record of the same request \<open>completed\<close>, and the route layer's own
  failure path (the method name \<open>constructor\<close>, which its validation lets through and its
  dispatcher refuses) leaves the record \<open>failed\<close>.
\<close>

theorem executeSettlement_record_stays_pending:
  "map_sum id er_status
     (fst (executeSettlement new_engine (sample_env 1) sample_request)) = Inr Completed
   \<and> map_option st_status
       (settlements_get (snd (executeSettlement new_engine (sample_env 1) sample_request))
          (sample_uuid 1)) = Some Pending
   \<and> map_option ss_status
       (getSettlement
          (snd (service_executeSettlement new_service_engine (sample_service_env 1)
             sample_request)) (sample_uuid 1)) = Some Completed
   \<and> map_option st_status
       (settlements_get
          (snd (executeSettlement new_engine (sample_env 1)
             (sample_request\<lparr>settlement_method := Some ''constructor''\<rparr>)))
          (sample_uuid 1)) = Some Failed"
proof -
  let ?x = "executeSettlement new_engine (sample_env 1) sample_request"
  let ?d = "sample_request\<lparr>settlement_method := Some ''constructor''\<rparr>"
  have "\<not> isl (fst ?x)"
    by (cases rule: executeSettlement_cases [of sample_request new_engine "sample_env 1"])
      (simp_all add: sample_request_valid, simp add: sample_request_def str_of_def)
  then have h: "fst ?x = Inr (projr (fst ?x))"
    by simp
  have u: "uuid (sample_env 1) = sample_uuid 1"
    by (simp add: sample_env_def)
  have su: "sv_uuid (sample_service_env 1) = sample_uuid 1"
    by (simp add: sample_service_env_def)
  have m: "str_of (settlement_method sample_request) = ''inr_upi''"
    by (simp add: sample_request_def str_of_def)
  have r: "map_sum id er_status (fst ?x) = Inr (er_status (projr (fst ?x)))"
    by (subst h) simp
  from executeSettlement_settled_status [OF h]
  have c1: "er_status (projr (fst ?x)) = Completed"
    and c2: "map_option st_status (settlements_get (snd ?x) (sample_uuid 1)) = Some Pending"
    unfolding u m by simp_all
  have s: "\<not> isl (fst (service_executeSettlement new_service_engine (sample_service_env 1)
      sample_request))"
    by (cases rule: service_executeSettlement_cases [of sample_request new_service_engine
          "sample_service_env 1"])
      (simp_all add: sample_request_service_valid, simp add: sample_request_def str_of_def)
  have c3: "map_option ss_status
       (getSettlement
          (snd (service_executeSettlement new_service_engine (sample_service_env 1)
             sample_request)) (sample_uuid 1)) = Some Completed"
    using service_executeSettlement_stored_status [OF sample_request_service_valid,
        of new_service_engine "sample_service_env 1"] s
    unfolding su by simp
  have v: "validateSettlementData ?d = None"
    by (simp add: validateSettlementData_def sample_request_def missing_str_def missing_num_def
        str_of_def num_of_def obj_get_def settlement_methods_def object_prototype_names_def)
  have f: "isl (fst (executeSettlement new_engine (sample_env 1) ?d))"
    by (rule executeSettlement_unsupported_method)
      (simp add: sample_request_def str_of_def settlement_methods_def)
  have c4: "map_option st_status
       (settlements_get (snd (executeSettlement new_engine (sample_env 1) ?d))
          (sample_uuid 1)) = Some Failed"
    using executeSettlement_failed_status [OF v f] unfolding u .
  show ?thesis
    using r c1 c2 c3 c4 by simp
qed

text \<open>
  C7, as stated, fails: neither \<^verbatim>\<open>executeSettlement\<close> evicts anything. After 10,001
  valid requests with distinct settlement ids on a fresh engine, the map holds 10,001
  records, in the route layer and in the service layer.
\<close>

theorem settlement_store_bound_counterexample:
  "length (settlements (executeSettlements new_engine (sample_calls 10001))) = 10001
   \<and> length (sv_settlements (service_executeSettlements new_service_engine
        (sample_service_calls 10001))) = 10001
   \<and> (10000 :: nat) < 10001"
  by (simp add: sample_calls_length sample_service_calls_length)

text \<open>
  C7, amended. The settlement store has no bound and no eviction. In either layer a call
  of \<^verbatim>\<open>executeSettlement\<close> that passes validation appends its settlement id to the map's
  keys when the id is new, and any other call leaves the keys as they were; so calls
  that pass validation with distinct new ids add one record each, and after \<open>n\<close> of them the
  store holds \<open>n\<close> more records than before.
\<close>

theorem settlement_store_grows:
  "map fst (settlements (snd (executeSettlement e env d))) =
     (if validateSettlementData d = None \<and> uuid env \<notin> set (map fst (settlements e))
      then map fst (settlements e) @ [uuid env] else map fst (settlements e))
   \<and> map fst (sv_settlements (snd (service_executeSettlement se senv d))) =
     (if service_validateSettlementData d = None
         \<and> sv_uuid senv \<notin> set (map fst (sv_settlements se))
      then map fst (sv_settlements se) @ [sv_uuid senv] else map fst (sv_settlements se))
   \<and> ((\<forall>x \<in> set calls. validateSettlementData (snd x) = None)
        \<and> distinct (map (\<lambda>x. uuid (fst x)) calls)
        \<and> (\<forall>x \<in> set calls. uuid (fst x) \<notin> set (map fst (settlements e)))
      \<longrightarrow> length (settlements (executeSettlements e calls))
            = length (settlements e) + length calls)
   \<and> ((\<forall>x \<in> set scalls. service_validateSettlementData (snd x) = None)
        \<and> distinct (map (\<lambda>x. sv_uuid (fst x)) scalls)
        \<and> (\<forall>x \<in> set scalls. sv_uuid (fst x) \<notin> set (map fst (sv_settlements se)))
      \<longrightarrow> length (sv_settlements (service_executeSettlements se scalls))
            = length (sv_settlements se) + length scalls)"
proof (intro conjI impI)
  show "map fst (settlements (snd (executeSettlement e env d))) =
     (if validateSettlementData d = None \<and> uuid env \<notin> set (map fst (settlements e))
      then map fst (settlements e) @ [uuid env] else map fst (settlements e))"
    by (simp add: executeSettlement_settlements update_keys)
next
  show "map fst (sv_settlements (snd (service_executeSettlement se senv d))) =
     (if service_validateSettlementData d = None
         \<and> sv_uuid senv \<notin> set (map fst (sv_settlements se))
      then map fst (sv_settlements se) @ [sv_uuid senv] else map fst (sv_settlements se))"
    by (simp add: service_executeSettlement_settlements update_keys)
next
  assume "(\<forall>x \<in> set calls. validateSettlementData (snd x) = None)
        \<and> distinct (map (\<lambda>x. uuid (fst x)) calls)
        \<and> (\<forall>x \<in> set calls. uuid (fst x) \<notin> set (map fst (settlements e)))"
  then show "length (settlements (executeSettlements e calls))
            = length (settlements e) + length calls"
    by (intro executeSettlements_length) simp_all
next
  assume "(\<forall>x \<in> set scalls. service_validateSettlementData (snd x) = None)
        \<and> distinct (map (\<lambda>x. sv_uuid (fst x)) scalls)
        \<and> (\<forall>x \<in> set scalls. sv_uuid (fst x) \<notin> set (map fst (sv_settlements se)))"
  then show "length (sv_settlements (service_executeSettlements se scalls))
            = length (sv_settlements se) + length scalls"
    by (intro service_executeSettlements_length) simp_all
qed

theorem settlement_store_grows_witness:
  "length (settlements (executeSettlements new_engine
      [(sample_env 0, sample_request), (sample_env 1, sample_request)])) = 2
   \<and> length (sv_settlements (service_executeSettlements new_service_engine
      [(sample_service_env 0, sample_request), (sample_service_env 1, sample_request)])) = 2"
proof -
  have u: "sample_uuid 0 \<noteq> sample_uuid 1"
    by (simp add: sample_uuid_def decimal.simps digit_def)
  show ?thesis
    using u settlement_store_grows [of new_engine "sample_env 0" sample_request
        new_service_engine "sample_service_env 0"
        "[(sample_env 0, sample_request), (sample_env 1, sample_request)]"
        "[(sample_service_env 0, sample_request), (sample_service_env 1, sample_request)]"]
    by (simp add: sample_request_valid sample_request_service_valid new_engine_def
        new_service_engine_def sample_env_def sample_service_env_def)
qed

subsection \<open>Conversion\<close>

text \<open>
  C2, as stated, fails for one input: the fee rate is read with \<^verbatim>\<open>||\<close>, so a request that
  gives \<^verbatim>\<open>fee_rate: 0\<close> is charged the default rate. Converting 1000 \<open>bgt\<close> to \<open>binr\<close> with
  \<^verbatim>\<open>options = {fee_rate: 0}\<close> charges the fee 0.5, where \<open>amount * fee_rate\<close> with the
  default applying only to an absent rate would be 0.
\<close>

theorem convert_fee_rate_counterexample:
  "\<not> isl (fst (convert new_conversion_engine (sample_convert_env 1700000000000 (sample_uuid 0))
        ''bgt'' ''binr'' 1000 \<lparr>opt_fee_rate = Some 0, opt_slippage_protection = None\<rparr>))
   \<and> conversion_fee (conv_fees (projr (fst (convert new_conversion_engine
        (sample_convert_env 1700000000000 (sample_uuid 0))
        ''bgt'' ''binr'' 1000 \<lparr>opt_fee_rate = Some 0, opt_slippage_protection = None\<rparr>)))) = 1 / 2
   \<and> 1000 * spec_fee_rate \<lparr>opt_fee_rate = Some 0, opt_slippage_protection = None\<rparr> = 0"
  by (simp add: sample_conversion_defs spec_fee_rate_def)

text \<open>
  C2, amended. For every successful route-layer conversion the conversion fee is
  \<open>amount * fee_rate\<close> on the source amount, where \<open>fee_rate\<close> is \<^verbatim>\<open>options.fee_rate\<close> when
  that is given and not 0, and 0.0005 otherwise; the returned to-asset amount is
  \<open>amount * adjusted_rate - fee\<close>, and the returned total fee is \<open>fee + slippage_amount\<close>.
\<close>

theorem convert_fee_formulas:
  assumes "fst (convert e env f t amt opts) = Inr conv"
  shows "conversion_fee (conv_fees conv) = amt * conversion_fee_rate opts
   \<and> conversion_fee_rate opts =
        (case opt_fee_rate opts of Some r \<Rightarrow> if r = 0 then 5 / 10000 else r | None \<Rightarrow> 5 / 10000)
   \<and> leg_amount (to_asset conv) =
      jsub (jmul (Num amt) (conversion_rate conv)) (Num (conversion_fee (conv_fees conv)))
   \<and> cf_total_fee (conv_fees conv) =
      jadd (Num (conversion_fee (conv_fees conv))) (slippage (conv_fees conv))"
  using convert_fields [OF assms] by (simp add: conversion_fee_rate_def)

text \<open>
  The witness is the specification's scenario: 1000 \<open>bgt\<close> to \<open>binr\<close> at the base prices
  5650 and 1 gives the rate 5650, the fee 0.5 and the to-asset amount 5,650,000 - 0.5.
\<close>

theorem convert_fee_formulas_witness:
  "\<not> isl (fst (convert new_conversion_engine (sample_convert_env 1700000000000 (sample_uuid 0))
        ''bgt'' ''binr'' 1000 default_options))
   \<and> conversion_fee (conv_fees (projr (fst (convert new_conversion_engine
        (sample_convert_env 1700000000000 (sample_uuid 0)) ''bgt'' ''binr'' 1000
        default_options)))) = 1 / 2
   \<and> conversion_rate (projr (fst (convert new_conversion_engine
        (sample_convert_env 1700000000000 (sample_uuid 0)) ''bgt'' ''binr'' 1000
        default_options))) = Num 5650
   \<and> leg_amount (to_asset (projr (fst (convert new_conversion_engine
        (sample_convert_env 1700000000000 (sample_uuid 0)) ''bgt'' ''binr'' 1000
        default_options)))) = Num (11299999 / 2)
   \<and> cf_total_fee (conv_fees (projr (fst (convert new_conversion_engine
        (sample_convert_env 1700000000000 (sample_uuid 0)) ''bgt'' ''binr'' 1000
        default_options)))) = Num (1 / 2)"
proof -
  let ?r = "fst (convert new_conversion_engine (sample_convert_env 1700000000000 (sample_uuid 0))
        ''bgt'' ''binr'' 1000 default_options)"
  have ok: "\<not> isl ?r"
    by (simp add: sample_conversion_defs)
  then have h: "?r = Inr (projr ?r)"
    by simp
  have rate: "conversion_rate (projr ?r) = Num 5650"
    by (simp add: sample_conversion_defs)
  have slip: "slippage (conv_fees (projr ?r)) = Num 0"
    by (simp add: sample_conversion_defs)
  show ?thesis
    using ok rate slip convert_fee_formulas [OF h]
    by (simp add: default_options_def jsub_def)
qed

text \<open>
  C3, as stated, fails: the fee is taken in source units from an amount in target units and
  the result is not clamped. Converting 1000 \<open>binr\<close> to \<open>bgt\<close> with default options at the
  base prices gives the rate 1/5650, so the gross amount is about 0.177, the fee is 0.5, and
  the returned to-asset amount is -73/226, below zero.
\<close>

theorem convert_negative_counterexample:
  "\<not> isl (fst (convert new_conversion_engine (sample_convert_env 1700000000000 (sample_uuid 0))
        ''binr'' ''bgt'' 1000 default_options))
   \<and> leg_amount (to_asset (projr (fst (convert new_conversion_engine
        (sample_convert_env 1700000000000 (sample_uuid 0)) ''binr'' ''bgt'' 1000
        default_options)))) = Num (- (73 / 226))
   \<and> \<not> (0 :: real) \<le> - (73 / 226)"
  by (simp add: sample_conversion_defs)

text \<open>
  C3, amended. For every successful route-layer conversion of an amount \<open>\<ge> 0\<close> with a
  finite adjusted rate: when the fee rate does not exceed the adjusted rate, the to-asset
  amount is not negative; and when the fee rate is at least the adjusted rate, the to-asset
  amount is not positive. (The to-asset amount is the difference of two products, the gross
  amount \<open>amount * adjusted_rate\<close> less the fee \<open>amount * fee_rate\<close>. Both parts compare the
  two products only through their order, which the rounding of doubles preserves; \<open>x < 0\<close>
  is false of NaN, the difference of two products that both overflowed.)
\<close>

theorem convert_to_amount_sign:
  assumes "fst (convert e env f t amt opts) = Inr conv"
    and "conversion_rate conv = Num r"
    and "0 \<le> amt"
  shows "(conversion_fee_rate opts \<le> r \<longrightarrow> \<not> jless (leg_amount (to_asset conv)) 0)
    \<and> (r \<le> conversion_fee_rate opts \<longrightarrow> \<not> jless (jneg (leg_amount (to_asset conv))) 0)"
proof -
  have l: "leg_amount (to_asset conv) = Num (amt * r - amt * conversion_fee_rate opts)"
    using convert_fields [OF assms(1)] assms(2) by (simp add: jsub_def)
  have "conversion_fee_rate opts \<le> r \<Longrightarrow> amt * conversion_fee_rate opts \<le> amt * r"
    using assms(3) by (rule mult_left_mono [rotated])
  moreover have "r \<le> conversion_fee_rate opts \<Longrightarrow> amt * r \<le> amt * conversion_fee_rate opts"
    using assms(3) by (rule mult_left_mono [rotated])
  ultimately show ?thesis
    unfolding l by auto
qed

text \<open>
  The witness: 1000 \<open>bgt\<close> to \<open>binr\<close> has the adjusted rate 5650, above the fee rate, and a
  to-asset amount that is not negative; 1000 \<open>binr\<close> to \<open>bgt\<close> has the adjusted rate 1/5650,
  below the fee rate 0.0005, and a to-asset amount that is not positive.
\<close>

theorem convert_to_amount_sign_witness:
  "\<not> isl (fst (convert new_conversion_engine (sample_convert_env 1700000000000 (sample_uuid 0))
        ''bgt'' ''binr'' 1000 default_options))
   \<and> conversion_rate (projr (fst (convert new_conversion_engine
        (sample_convert_env 1700000000000 (sample_uuid 0)) ''bgt'' ''binr'' 1000
        default_options))) = Num 5650
   \<and> conversion_fee_rate default_options \<le> 5650
   \<and> \<not> jless (leg_amount (to_asset (projr (fst (convert new_conversion_engine
        (sample_convert_env 1700000000000 (sample_uuid 0)) ''bgt'' ''binr'' 1000
        default_options))))) 0
   \<and> \<not> isl (fst (convert new_conversion_engine (sample_convert_env 1700000000000 (sample_uuid 0))
        ''binr'' ''bgt'' 1000 default_options))
   \<and> conversion_rate (projr (fst (convert new_conversion_engine
        (sample_convert_env 1700000000000 (sample_uuid 0)) ''binr'' ''bgt'' 1000
        default_options))) = Num (1 / 5650)
   \<and> 1 / 5650 \<le> conversion_fee_rate default_options
   \<and> (0 :: real) \<le> 1000
   \<and> \<not> jless (jneg (leg_amount (to_asset (projr (fst (convert new_conversion_engine
        (sample_convert_env 1700000000000 (sample_uuid 0)) ''binr'' ''bgt'' 1000
        default_options)))))) 0"
proof -
  let ?p = "fst (convert new_conversion_engine (sample_convert_env 1700000000000 (sample_uuid 0))
        ''bgt'' ''binr'' 1000 default_options)"
  let ?q = "fst (convert new_conversion_engine (sample_convert_env 1700000000000 (sample_uuid 0))
        ''binr'' ''bgt'' 1000 default_options)"
  have okp: "\<not> isl ?p"
    by (simp add: sample_conversion_defs)
  then have hp: "?p = Inr (projr ?p)"
    by simp
  have ratep: "conversion_rate (projr ?p) = Num 5650"
    by (simp add: sample_conversion_defs)
  have okq: "\<not> isl ?q"
    by (simp add: sample_conversion_defs)
  then have hq: "?q = Inr (projr ?q)"
    by simp
  have rateq: "conversion_rate (projr ?q) = Num (1 / 5650)"
    by (simp add: sample_conversion_defs)
  have amt: "(0 :: real) \<le> 1000"
    by simp
  have fr: "conversion_fee_rate default_options = 5 / 10000"
    by (simp add: default_options_def conversion_fee_rate_def)
  show ?thesis
    using okp ratep okq rateq convert_to_amount_sign [OF hp ratep amt]
      convert_to_amount_sign [OF hq rateq amt]
    by (simp add: fr)
qed

text \<open>
  C4. For every supported asset \<open>x\<close> and every amount, the service layer's
  \<^verbatim>\<open>convertAmount(x, x, amount)\<close> succeeds with the amount passed through, rate 1 and fee 0
  (and leaves the price cache alone), while the route layer's \<^verbatim>\<open>convert(x, x, amount)\<close> fails
  with the error that source and target assets cannot be the same (and leaves the engine
  alone).
\<close>

theorem same_asset_policy:
  assumes "x \<in> set supported_assets"
  shows "convertAmount cache senv x x amt =
      (Inr \<lparr>sc_from_amount = amt, sc_to_amount = Num amt, sc_rate = Num 1, sc_fee = Num 0,
            sc_net_amount = Num amt, sc_slippage = Num 0, sc_details = None\<rparr>, cache)
    \<and> convert e env x x amt opts = (Inl (ConversionFailed SameAsset), e)"
  using assms by (simp add: convertAmount_def convert_def validateConversion_def)

theorem same_asset_policy_witness:
  "''bgt'' \<in> set supported_assets
   \<and> convertAmount [] \<lparr>sc_from_env = sample_price_env 1700000000000,
         sc_to_env = sample_price_env 1700000000000, sc_now = 1700000000000\<rparr>
       ''bgt'' ''bgt'' 250 =
      (Inr \<lparr>sc_from_amount = 250, sc_to_amount = Num 250, sc_rate = Num 1, sc_fee = Num 0,
            sc_net_amount = Num 250, sc_slippage = Num 0, sc_details = None\<rparr>, [])
   \<and> convert new_conversion_engine (sample_convert_env 1700000000000 (sample_uuid 0))
       ''bgt'' ''bgt'' 250 default_options
      = (Inl (ConversionFailed SameAsset), new_conversion_engine)"
proof -
  have h: "''bgt'' \<in> set supported_assets"
    by (simp add: supported_assets_def)
  show ?thesis
    using h same_asset_policy [OF h, of "[]" "\<lparr>sc_from_env = sample_price_env 1700000000000,
         sc_to_env = sample_price_env 1700000000000, sc_now = 1700000000000\<rparr>" 250
        new_conversion_engine "sample_convert_env 1700000000000 (sample_uuid 0)" default_options]
    by simp
qed

subsection \<open>Unsupported codes\<close>

text \<open>
  C8, as stated, fails for \<^verbatim>\<open>getPrice\<close>, which does not validate its asset code: for the
  unsupported code \<open>usd\<close> it returns a live quote priced from the default 100.00.
\<close>

theorem getPrice_unvalidated_counterexample:
  "''usd'' \<notin> set supported_assets
   \<and> fst (getPrice [] (sample_price_env 1700000000000) ''usd'') =
     Inr \<lparr>asset_type = ''usd'', price = N (Num 100), pd_currency = ''INR'',
          source = Own ''UTP Internal'', timestamp = Iso 1700000000000,
          volatility = Own ''medium'', confidence = 95 / 100\<rparr>"
  by (simp add: sample_conversion_defs)

text \<open>
  C8, amended. The route layer's \<^verbatim>\<open>convert\<close> rejects every request whose source or target
  asset is outside \<open>{bgt, bst, bpt, binr, rwa}\<close> with the error of its validation, leaving
  the engine unchanged. For a method code that is neither in the layer's method table nor a
  name inherited from \<^verbatim>\<open>Object.prototype\<close>, \<^verbatim>\<open>executeSettlement\<close>, in both layers, fails with
  the error of its validation (unsupported method, or a missing required field) before
  anything is stored, leaving the engine unchanged, and \<^verbatim>\<open>calculateFees\<close>, in both layers,
  fails with its unknown-method error. \<^verbatim>\<open>getPrice\<close> performs no validation: for an asset
  code outside the set (and not a name inherited from \<^verbatim>\<open>Object.prototype\<close>), with no cache
  entry, it returns a quote priced from the default 100.00, with source \<open>UTP Internal\<close>,
  volatility \<open>medium\<close> and confidence 0.95.
\<close>

theorem unsupported_codes:
  "(f \<notin> set supported_assets \<or> t \<notin> set supported_assets \<longrightarrow>
      (\<exists>err. validateConversion f t = Some err
         \<and> convert ce cenv f t amt opts = (Inl (ConversionFailed err), ce)))
   \<and> (str_of (settlement_method d) \<notin> fst ` set settlement_methods
        \<and> str_of (settlement_method d) \<notin> set object_prototype_names \<longrightarrow>
      (\<exists>err. validateSettlementData d = Some err
         \<and> (err = UnsupportedMethod (str_of (settlement_method d))
              \<or> (\<exists>field. err = MissingField field))
         \<and> executeSettlement e env d = (Inl (ExecutionFailed err), e)))
   \<and> (str_of (settlement_method d) \<notin> fst ` set service_settlement_methods
        \<and> str_of (settlement_method d) \<notin> set object_prototype_names \<longrightarrow>
      (\<exists>err. service_validateSettlementData d = Some err
         \<and> (err = InvalidMethod (str_of (settlement_method d))
              \<or> (\<exists>field. err = MissingField field))
         \<and> service_executeSettlement se senv d = (Inl (ExecutionFailed err), se)))
   \<and> (m \<notin> fst ` set settlement_methods \<and> m \<notin> set object_prototype_names \<longrightarrow>
      calculateFees x m = Inl (UnknownMethod m))
   \<and> (m \<notin> fst ` set service_settlement_methods \<and> m \<notin> set object_prototype_names \<longrightarrow>
      service_calculateFees fe x m = Inl (InvalidMethod m))
   \<and> (a \<notin> set supported_assets \<and> a \<notin> set object_prototype_names
        \<and> map_of cache (cache_key a) = None \<longrightarrow>
      fst (getPrice cache penv a) =
        Inr \<lparr>asset_type = a, price = N (Num (100 * (1 + (random penv - 1 / 2) * (2 / 1000)))),
             pd_currency = ''INR'', source = Own ''UTP Internal'',
             timestamp = Iso (now_fetched penv), volatility = Own ''medium'',
             confidence = 95 / 100\<rparr>)"
proof (intro conjI impI)
  assume "f \<notin> set supported_assets \<or> t \<notin> set supported_assets"
  then show "\<exists>err. validateConversion f t = Some err
         \<and> convert ce cenv f t amt opts = (Inl (ConversionFailed err), ce)"
    by (auto simp: convert_def validateConversion_def)
next
  assume "str_of (settlement_method d) \<notin> fst ` set settlement_methods
        \<and> str_of (settlement_method d) \<notin> set object_prototype_names"
  then have "obj_get settlement_methods (str_of (settlement_method d)) = Missing"
    by (intro obj_get_Missing) simp_all
  from validateSettlementData_Missing [OF this]
  obtain err where v: "validateSettlementData d = Some err"
    and k: "err = UnsupportedMethod (str_of (settlement_method d))
              \<or> (\<exists>field. err = MissingField field)"
    by blast
  from v have "executeSettlement e env d = (Inl (ExecutionFailed err), e)"
    by (rule executeSettlement_invalid)
  with v k show "\<exists>err. validateSettlementData d = Some err
         \<and> (err = UnsupportedMethod (str_of (settlement_method d))
              \<or> (\<exists>field. err = MissingField field))
         \<and> executeSettlement e env d = (Inl (ExecutionFailed err), e)"
    by blast
next
  assume "str_of (settlement_method d) \<notin> fst ` set service_settlement_methods
        \<and> str_of (settlement_method d) \<notin> set object_prototype_names"
  then have "obj_get service_settlement_methods (str_of (settlement_method d)) = Missing"
    by (intro obj_get_Missing) simp_all
  from service_validateSettlementData_Missing [OF this]
  obtain err where v: "service_validateSettlementData d = Some err"
    and k: "err = InvalidMethod (str_of (settlement_method d))
              \<or> (\<exists>field. err = MissingField field)"
    by blast
  from v have "service_executeSettlement se senv d = (Inl (ExecutionFailed err), se)"
    by (rule service_executeSettlement_invalid)
  with v k show "\<exists>err. service_validateSettlementData d = Some err
         \<and> (err = InvalidMethod (str_of (settlement_method d))
              \<or> (\<exists>field. err = MissingField field))
         \<and> service_executeSettlement se senv d = (Inl (ExecutionFailed err), se)"
    by blast
next
  assume "m \<notin> fst ` set settlement_methods \<and> m \<notin> set object_prototype_names"
  then have "obj_get settlement_methods m = Missing"
    by (intro obj_get_Missing) simp_all
  then show "calculateFees x m = Inl (UnknownMethod m)"
    by (simp add: calculateFees_def)
next
  assume "m \<notin> fst ` set service_settlement_methods \<and> m \<notin> set object_prototype_names"
  then have "obj_get service_settlement_methods m = Missing"
    by (intro obj_get_Missing) simp_all
  then show "service_calculateFees fe x m = Inl (InvalidMethod m)"
    by (simp add: service_calculateFees_def)
next
  assume "a \<notin> set supported_assets \<and> a \<notin> set object_prototype_names
        \<and> map_of cache (cache_key a) = None"
  then show "fst (getPrice cache penv a) =
        Inr \<lparr>asset_type = a, price = N (Num (100 * (1 + (random penv - 1 / 2) * (2 / 1000)))),
             pd_currency = ''INR'', source = Own ''UTP Internal'',
             timestamp = Iso (now_fetched penv), volatility = Own ''medium'',
             confidence = 95 / 100\<rparr>"
    by (intro getPrice_unsupported_asset) simp_all
qed

text \<open>
  The witness: the asset code \<open>usd\<close> and the method code \<open>wire\<close> on the sample request and
  fresh engines.
\<close>

theorem unsupported_codes_witness:
  "convert new_conversion_engine (sample_convert_env 1700000000000 (sample_uuid 0))
        ''usd'' ''binr'' 1000 default_options
     = (Inl (ConversionFailed (UnsupportedSourceAsset ''usd'')), new_conversion_engine)
   \<and> executeSettlement new_engine (sample_env 0)
        (sample_request\<lparr>settlement_method := Some ''wire''\<rparr>)
     = (Inl (ExecutionFailed (UnsupportedMethod ''wire'')), new_engine)
   \<and> service_executeSettlement new_service_engine (sample_service_env 0)
        (sample_request\<lparr>settlement_method := Some ''wire''\<rparr>)
     = (Inl (ExecutionFailed (InvalidMethod ''wire'')), new_service_engine)
   \<and> calculateFees 1000 ''wire'' = Inl (UnknownMethod ''wire'')
   \<and> service_calculateFees (sv_rounding (sample_service_env 0)) 1000 ''wire''
     = Inl (InvalidMethod ''wire'')
   \<and> fst (getPrice [] (sample_price_env 1700000000000) ''usd'') =
     Inr \<lparr>asset_type = ''usd'', price = N (Num 100), pd_currency = ''INR'',
          source = Own ''UTP Internal'', timestamp = Iso 1700000000000,
          volatility = Own ''medium'', confidence = 95 / 100\<rparr>"
proof -
  let ?d = "sample_request\<lparr>settlement_method := Some ''wire''\<rparr>"
  have c: "validateConversion ''usd'' ''binr'' = Some (UnsupportedSourceAsset ''usd'')"
    by (simp add: validateConversion_def supported_assets_def)
  have v: "validateSettlementData ?d = Some (UnsupportedMethod ''wire'')"
    by (simp add: validateSettlementData_def sample_request_def missing_str_def missing_num_def
        str_of_def num_of_def obj_get_def settlement_methods_def object_prototype_names_def)
  have sv: "service_validateSettlementData ?d = Some (InvalidMethod ''wire'')"
    by (simp add: service_validateSettlementData_def sample_request_def missing_str_def
        missing_num_def str_of_def num_of_def obj_get_def service_settlement_methods_def
        object_prototype_names_def)
  have m: "str_of (settlement_method ?d) = ''wire''"
    by (simp add: str_of_def)
  have n: "''wire'' \<notin> fst ` set settlement_methods"
    "''wire'' \<notin> fst ` set service_settlement_methods"
    "''wire'' \<notin> set object_prototype_names"
    "''usd'' \<notin> set supported_assets" "''usd'' \<notin> set object_prototype_names"
    by (simp_all add: settlement_methods_def service_settlement_methods_def
        object_prototype_names_def supported_assets_def)
  show ?thesis
    using n unsupported_codes [of "''usd''" "''binr''" new_conversion_engine
      "sample_convert_env 1700000000000 (sample_uuid 0)" 1000 default_options
      ?d new_engine "sample_env 0" new_service_engine "sample_service_env 0" "''wire''" 1000
      "sv_rounding (sample_service_env 0)" "''usd''" "[]" "sample_price_env 1700000000000"]
    unfolding m c v sv
    by (simp add: sample_price_env_def)
qed

subsection \<open>Price fetch failure\<close>




subsection \<open>Conversion history\<close>

text \<open>
  C10. The history is keyed by the millisecond of insertion. When two successful
  conversions store their entries in the same millisecond (on a history within its bound of
  10,000), the second entry replaces the first under that key: the history is as long after
  the second conversion as after the first, the entry under the key holds the second
  conversion, and \<^verbatim>\<open>getConversionHistory\<close> counts the same number of entries. So the history
  can hold fewer entries than conversions performed.
\<close>

theorem history_same_millisecond:
  assumes "length (conversion_history e) \<le> 10000"
    and "validateConversion f1 t1 = None"
    and "validateConversion f2 t2 = None"
    and "now_key env2 = now_key env1"
  shows "\<not> isl (fst (convert e env1 f1 t1 a1 o1))
    \<and> \<not> isl (fst (convert (snd (convert e env1 f1 t1 a1 o1)) env2 f2 t2 a2 o2))
    \<and> length (conversion_history
          (snd (convert (snd (convert e env1 f1 t1 a1 o1)) env2 f2 t2 a2 o2)))
        = length (conversion_history (snd (convert e env1 f1 t1 a1 o1)))
    \<and> map_option he_conversion
         (map_of (conversion_history
            (snd (convert (snd (convert e env1 f1 t1 a1 o1)) env2 f2 t2 a2 o2)))
            (history_key (now_key env1)))
        = Some (projr (fst (convert (snd (convert e env1 f1 t1 a1 o1)) env2 f2 t2 a2 o2)))
    \<and> snd (getConversionHistory
          (snd (convert (snd (convert e env1 f1 t1 a1 o1)) env2 f2 t2 a2 o2)) n)
        = snd (getConversionHistory (snd (convert e env1 f1 t1 a1 o1)) n)"
proof -
  define E1 where "E1 = snd (convert e env1 f1 t1 a1 o1)"
  obtain q1 q2 c2 where 1: "convert e env1 f1 t1 a1 o1 =
         (Inr (calculateConversion env1 q1 q2 a1 o1),
          e\<lparr>price_cache := c2,
            conversion_history := storeConversionHistory (conversion_history e) env1 f1 t1 a1
              (calculateConversion env1 q1 q2 a1 o1)\<rparr>)"
    using assms(2) by (cases rule: convert_cases [of f1 t1 e env1 a1 o1]) auto
  have ok1: "\<not> isl (fst (convert e env1 f1 t1 a1 o1))"
    by (simp add: 1)
  have h1: "conversion_history E1 = storeConversionHistory (conversion_history e) env1 f1 t1 a1
              (calculateConversion env1 q1 q2 a1 o1)"
    by (simp add: E1_def 1)
  obtain q3 q4 c4 where 2: "convert E1 env2 f2 t2 a2 o2 =
         (Inr (calculateConversion env2 q3 q4 a2 o2),
          E1\<lparr>price_cache := c4,
            conversion_history := storeConversionHistory (conversion_history E1) env2 f2 t2 a2
              (calculateConversion env2 q3 q4 a2 o2)\<rparr>)"
    using assms(3) by (cases rule: convert_cases [of f2 t2 E1 env2 a2 o2]) auto
  note tw = storeConversionHistory_twice [OF assms(1,4), of f1 t1 a1
      "calculateConversion env1 q1 q2 a1 o1" f2 t2 a2 "calculateConversion env2 q3 q4 a2 o2"]
  show ?thesis
    unfolding getConversionHistory_count E1_def [symmetric]
    using tw ok1 by (simp add: 2 h1)
qed

text \<open>The witness: two conversions in one millisecond on a fresh engine leave one entry.\<close>

theorem history_same_millisecond_witness:
  "length (conversion_history new_conversion_engine) \<le> 10000
   \<and> \<not> isl (fst (convert new_conversion_engine
        (sample_convert_env 1700000000000 (sample_uuid 0)) ''bgt'' ''binr'' 1000
        default_options))
   \<and> \<not> isl (fst (convert (snd (convert new_conversion_engine
        (sample_convert_env 1700000000000 (sample_uuid 0)) ''bgt'' ''binr'' 1000
        default_options))
        (sample_convert_env 1700000000000 (sample_uuid 1)) ''bst'' ''binr'' 20 default_options))
   \<and> length (conversion_history (snd (convert (snd (convert new_conversion_engine
        (sample_convert_env 1700000000000 (sample_uuid 0)) ''bgt'' ''binr'' 1000
        default_options))
        (sample_convert_env 1700000000000 (sample_uuid 1)) ''bst'' ''binr'' 20
        default_options))) = 1"
proof -
  have l: "length (conversion_history new_conversion_engine) \<le> 10000"
    by (simp add: new_conversion_engine_def)
  have v1: "validateConversion ''bgt'' ''binr'' = None"
    by (simp add: validateConversion_def supported_assets_def)
  have v2: "validateConversion ''bst'' ''binr'' = None"
    by (simp add: validateConversion_def supported_assets_def)
  have k: "now_key (sample_convert_env 1700000000000 (sample_uuid 1))
             = now_key (sample_convert_env 1700000000000 (sample_uuid 0))"
    by (simp add: sample_convert_env_def)
  have first: "length (conversion_history (snd (convert new_conversion_engine
        (sample_convert_env 1700000000000 (sample_uuid 0)) ''bgt'' ''binr'' 1000
        default_options))) = 1"
    by (simp add: sample_conversion_defs)
  show ?thesis
    using l first history_same_millisecond [OF l v1 v2 k, of 1000 default_options 20 default_options 5]
    by simp
qed

end
